theory Spec2Isabelle
  imports Complex_Main "HOL-Library.Word"
begin

section \<open>JavaScript strings\<close>

text \<open>
  A JavaScript string is a sequence of UTF-16 code units, and \<open>length\<close>, \<open>slice\<close>,
  \<open>substring\<close> and the regular expressions of the sources all count code units.
  ASCII literals of the sources are written \<open>js ''...''\<close>.
\<close>

type_synonym code_unit = "16 word"
type_synonym jsstring = "code_unit list"

definition cu :: "char \<Rightarrow> code_unit" where
  "cu c = of_nat (of_char c)"

definition js :: "string \<Rightarrow> jsstring" where
  "js s = map cu s"

text \<open>
  White space as \<open>String.prototype.trim\<close> and the class \<open>\s\<close> see it: the WhiteSpace
  and LineTerminator code points of ECMAScript.
\<close>

definition is_ws :: "code_unit \<Rightarrow> bool" where
  "is_ws u = (u = 0x9 \<or> u = 0xA \<or> u = 0xB \<or> u = 0xC \<or> u = 0xD \<or> u = 0x20 \<or> u = 0xA0
     \<or> u = 0x1680 \<or> (0x2000 \<le> u \<and> u \<le> 0x200A) \<or> u = 0x2028 \<or> u = 0x2029
     \<or> u = 0x202F \<or> u = 0x205F \<or> u = 0x3000 \<or> u = 0xFEFF)"

definition trim :: "jsstring \<Rightarrow> jsstring" where
  "trim s = rev (dropWhile is_ws (rev (dropWhile is_ws s)))"

text \<open>\<open>s.slice(b, e)\<close>: a negative index counts from the end, both are clamped.\<close>

definition slice :: "'a list \<Rightarrow> int \<Rightarrow> int \<Rightarrow> 'a list" where
  "slice s b e =
     (let len = int (length s);
          from = (if b < 0 then max (len + b) 0 else min b len);
          to = (if e < 0 then max (len + e) 0 else min e len)
      in if to \<le> from then [] else take (nat (to - from)) (drop (nat from) s))"

text \<open>\<open>s.substring(a, b)\<close>: both indices are clamped to the string and swapped if needed.\<close>

definition substring :: "'a list \<Rightarrow> int \<Rightarrow> int \<Rightarrow> 'a list" where
  "substring s a b =
     (let len = int (length s);
          a' = min (max a 0) len;
          b' = min (max b 0) len;
          from = min a' b';
          to = max a' b'
      in take (nat (to - from)) (drop (nat from) s))"

text \<open>
  \<open>s.lastIndexOf(c, pos)\<close> for a one-unit search string: the greatest index not above
  \<open>pos\<close> (clamped to the string) that holds \<open>c\<close>, or \<open>-1\<close>.
\<close>

fun last_index_upto :: "'a \<Rightarrow> 'a list \<Rightarrow> nat \<Rightarrow> int" where
  "last_index_upto c s 0 = (if s ! 0 = c then 0 else -1)"
| "last_index_upto c s (Suc k) =
     (if s ! Suc k = c then int (Suc k) else last_index_upto c s k)"

definition lastIndexOf :: "'a list \<Rightarrow> 'a \<Rightarrow> int \<Rightarrow> int" where
  "lastIndexOf s c pos =
     (if s = [] then -1
      else last_index_upto c s (nat (min (max pos 0) (int (length s) - 1))))"

section \<open>JavaScript numbers\<close>

text \<open>
  A number is an IEEE 754 double: \<open>NaN\<close>, one of the two infinities, or a finite value,
  held as the rational it denotes. Zero has no sign here. Every arithmetic result is
  rounded to the nearest double, ties to the even one, by \<open>to_double\<close>.
\<close>

datatype number = NaN | Num rat | PosInf | NegInf

text \<open>The integer logarithm to base 2 of a positive integer.\<close>

function ilog2 :: "int \<Rightarrow> int" where
  "ilog2 n = (if n < 2 then 0 else 1 + ilog2 (n div 2))"
  by pat_completeness auto
termination
  by (relation "measure nat") auto

declare ilog2.simps [simp del]

definition pow2 :: "int \<Rightarrow> rat" where
  "pow2 e = (if 0 \<le> e then 2 ^ nat e else 1 / 2 ^ nat (- e))"

text \<open>The exponent \<open>e\<close> of a positive rational \<open>x\<close>: \<open>2^e \<le> x < 2^(e+1)\<close>.\<close>

definition exponent :: "rat \<Rightarrow> int" where
  "exponent x =
     (if 1 \<le> x then ilog2 \<lfloor>x\<rfloor>
      else (let k = ilog2 \<lfloor>1 / x\<rfloor>
            in if x * pow2 k = 1 then - k else - k - 1))"

definition round_half_even :: "rat \<Rightarrow> int" where
  "round_half_even m =
     (let f = \<lfloor>m\<rfloor>; d = m - of_int f
      in if d < 1 / 2 then f else if 1 / 2 < d then f + 1
         else if even f then f else f + 1)"

text \<open>
  The double nearest to a rational: 53 significant bits, exponents from -1022 (below,
  the spacing stays \<open>2^-1074\<close>), ties to the even significand. The rounded value reaches
  \<open>2^1024\<close>, and the result is an infinity, when the exponent passes 1023 or when the
  significand rounds up to \<open>2^53\<close> at exponent 1023.
\<close>

definition to_double :: "rat \<Rightarrow> number" where
  "to_double x =
     (if x = 0 then Num 0
      else (let e = max (exponent \<bar>x\<bar>) (- 1022);
                quantum = pow2 (e - 52);
                m = round_half_even (\<bar>x\<bar> / quantum);
                r = of_int m * quantum
            in if 1023 < e \<or> (e = 1023 \<and> 2 ^ 53 \<le> m) then (if x < 0 then NegInf else PosInf)
               else Num (if x < 0 then - r else r)))"

text \<open>\<open>a < b\<close> and \<open>a > b\<close> on numbers: false as soon as one side is \<open>NaN\<close>.\<close>

definition js_less :: "number \<Rightarrow> number \<Rightarrow> bool" where
  "js_less a b = (case (a, b) of
       (Num x, Num y) \<Rightarrow> x < y
     | (Num x, PosInf) \<Rightarrow> True
     | (NegInf, Num y) \<Rightarrow> True
     | (NegInf, PosInf) \<Rightarrow> True
     | _ \<Rightarrow> False)"

definition js_greater :: "number \<Rightarrow> number \<Rightarrow> bool" where
  "js_greater a b = js_less b a"

definition infinite_number :: "number \<Rightarrow> bool" where
  "infinite_number a = (a = PosInf \<or> a = NegInf)"

definition sign_of :: "number \<Rightarrow> int" where
  "sign_of a = (case a of
       Num x \<Rightarrow> (if x < 0 then - 1 else if x = 0 then 0 else 1)
     | PosInf \<Rightarrow> 1
     | NegInf \<Rightarrow> - 1
     | NaN \<Rightarrow> 0)"

text \<open>The infinity of a sign; sign 0 stands for an undefined result.\<close>

definition signed_infinity :: "int \<Rightarrow> number" where
  "signed_infinity s = (if 0 < s then PosInf else if s < 0 then NegInf else NaN)"

definition js_times :: "number \<Rightarrow> number \<Rightarrow> number" where
  "js_times a b = (case (a, b) of
       (Num x, Num y) \<Rightarrow> to_double (x * y)
     | _ \<Rightarrow> (if a = NaN \<or> b = NaN then NaN else signed_infinity (sign_of a * sign_of b)))"

definition js_plus :: "number \<Rightarrow> number \<Rightarrow> number" where
  "js_plus a b = (case (a, b) of
       (Num x, Num y) \<Rightarrow> to_double (x + y)
     | _ \<Rightarrow> (if a = NaN \<or> b = NaN then NaN
             else if infinite_number a \<and> infinite_number b \<and> a \<noteq> b then NaN
             else if infinite_number a then a else b))"

text \<open>Division; the divisor of the sources is a positive array length.\<close>

definition js_divide :: "number \<Rightarrow> number \<Rightarrow> number" where
  "js_divide a b = (case (a, b) of
       (Num x, Num y) \<Rightarrow> (if y = 0 then signed_infinity (sign_of a) else to_double (x / y))
     | _ \<Rightarrow> (if a = NaN \<or> b = NaN then NaN
             else if infinite_number a \<and> infinite_number b then NaN
             else if infinite_number b then Num 0
             else signed_infinity (sign_of a * (if sign_of b < 0 then - 1 else 1))))"

definition Math_max :: "number \<Rightarrow> number \<Rightarrow> number" where
  "Math_max a b = (if a = NaN \<or> b = NaN then NaN else if js_less a b then b else a)"

definition Math_min :: "number \<Rightarrow> number \<Rightarrow> number" where
  "Math_min a b = (if a = NaN \<or> b = NaN then NaN else if js_less b a then b else a)"

text \<open>\<open>Math.round\<close>: the closest integer, the larger one of two equally close.\<close>

definition Math_round :: "number \<Rightarrow> number" where
  "Math_round a = (case a of
       Num x \<Rightarrow> (if x - of_int \<lfloor>x\<rfloor> < 1 / 2 then Num (of_int \<lfloor>x\<rfloor>)
                else Num (of_int (\<lfloor>x\<rfloor> + 1)))
     | _ \<Rightarrow> a)"

text \<open>The literals \<open>0.7\<close> and \<open>0.5\<close> of the chunker, as the doubles they denote.\<close>

definition double_0_7 :: number where
  "double_0_7 = Num (3152519739159347 / 4503599627370496)"

definition double_0_5 :: number where
  "double_0_5 = Num (1 / 2)"

section \<open>Content chunker (src/lib/ai/vectors.ts)\<close>

text \<open>
  \<open>chunkText(text, maxChunkSize, overlap)\<close>. The sizes and the positions are integers
  (which doubles hold exactly below \<open>2^53\<close>); the two thresholds
  \<open>start + maxChunkSize * 0.7\<close> and \<open>start + maxChunkSize * 0.5\<close> are the double products
  and sums of the source. The state of the \<open>while\<close> loop is the position \<open>start\<close> and
  the array \<open>chunks\<close>.
\<close>

record chunk_state =
  start :: int
  chunks :: "jsstring list"

text \<open>The end of the chunk that begins at \<open>start\<close> (lines 94 to 115).\<close>

definition chunk_end :: "jsstring \<Rightarrow> int \<Rightarrow> int \<Rightarrow> int" where
  "chunk_end text maxChunkSize st =
     (let end = st + maxChunkSize in
      if end < int (length text) then
        (let sentenceEnd = lastIndexOf text (cu CHR ''.'') end;
             questionEnd = lastIndexOf text (cu CHR ''?'') end;
             exclamationEnd = lastIndexOf text (cu CHR ''!'') end;
             bestEnd = max (max sentenceEnd questionEnd) exclamationEnd
         in if js_greater (Num (of_int bestEnd))
                 (js_plus (Num (of_int st)) (js_times (Num (of_int maxChunkSize)) double_0_7))
            then bestEnd + 1
            else (let spaceIndex = lastIndexOf text (cu CHR '' '') end
                  in if js_greater (Num (of_int spaceIndex))
                          (js_plus (Num (of_int st))
                             (js_times (Num (of_int maxChunkSize)) double_0_5))
                     then spaceIndex else end))
      else end)"

text \<open>One iteration of the loop body (lines 94 to 123).\<close>

definition chunk_step :: "jsstring \<Rightarrow> int \<Rightarrow> int \<Rightarrow> chunk_state \<Rightarrow> chunk_state" where
  "chunk_step text maxChunkSize overlap st =
     (let end = chunk_end text maxChunkSize (start st);
          chunk = trim (slice text (start st) end)
      in \<lparr> start = max (start st + 1) (end - overlap),
           chunks = (if chunk \<noteq> [] then chunks st @ [chunk] else chunks st) \<rparr>)"

text \<open>The loop itself; a run that never leaves the loop is \<open>None\<close>.\<close>

partial_function (option) chunk_loop ::
  "jsstring \<Rightarrow> int \<Rightarrow> int \<Rightarrow> chunk_state \<Rightarrow> jsstring list option" where
  "chunk_loop text maxChunkSize overlap st =
     (if start st < int (length text)
      then chunk_loop text maxChunkSize overlap (chunk_step text maxChunkSize overlap st)
      else Some (chunks st))"

declare chunk_loop.simps [code]

definition chunkText :: "jsstring \<Rightarrow> int \<Rightarrow> int \<Rightarrow> jsstring list option" where
  "chunkText text maxChunkSize overlap =
     (if text = [] \<or> int (length text) \<le> maxChunkSize then Some [text]
      else chunk_loop text maxChunkSize overlap \<lparr> start = 0, chunks = [] \<rparr>)"

section \<open>JavaScript values\<close>

text \<open>The values that metadata objects and parsed documents hold.\<close>

datatype jsvalue =
    Undefined
  | Null
  | Boolean bool
  | Number number
  | Str jsstring
  | Array "jsvalue list"
  | Object "(jsstring \<times> jsvalue) list"

type_synonym jsobject = "jsstring \<rightharpoonup> jsvalue"

text \<open>A property read: a missing key reads as \<open>undefined\<close>.\<close>

definition get_prop :: "jsobject \<Rightarrow> string \<Rightarrow> jsvalue" where
  "get_prop obj k = (case obj (js k) of None \<Rightarrow> Undefined | Some v \<Rightarrow> v)"

fun truthy :: "jsvalue \<Rightarrow> bool" where
  "truthy Undefined = False"
| "truthy Null = False"
| "truthy (Boolean b) = b"
| "truthy (Number n) = (n \<noteq> NaN \<and> n \<noteq> Num 0)"
| "truthy (Str s) = (s \<noteq> [])"
| "truthy (Array xs) = True"
| "truthy (Object kvs) = True"

text \<open>\<open>a || b\<close>.\<close>

definition js_or :: "jsvalue \<Rightarrow> jsvalue \<Rightarrow> jsvalue" where
  "js_or a b = (if truthy a then a else b)"

section \<open>The regular expressions of the chat route (src/app/api/chat/route.ts)\<close>

definition is_digit :: "code_unit \<Rightarrow> bool" where
  "is_digit u = (0x30 \<le> u \<and> u \<le> 0x39)"

text \<open>The class \<open>[\d.]\<close>.\<close>

definition is_score_unit :: "code_unit \<Rightarrow> bool" where
  "is_score_unit u = (is_digit u \<or> u = cu CHR ''.'')"

fun strip_prefix :: "'a list \<Rightarrow> 'a list \<Rightarrow> 'a list option" where
  "strip_prefix [] s = Some s"
| "strip_prefix (p # ps) [] = None"
| "strip_prefix (p # ps) (c # cs) = (if p = c then strip_prefix ps cs else None)"

text \<open>
  \<open>s.match(/Score: ([\d.]+)/)\<close>: the capture group of the leftmost match, \<open>None\<close> for
  \<open>null\<close>. The group is the longest run of \<open>[\d.]\<close> after the literal.
\<close>

fun match_Score :: "jsstring \<Rightarrow> jsstring option" where
  "match_Score [] = None"
| "match_Score (c # cs) =
     (case strip_prefix (js ''Score: '') (c # cs) of
        None \<Rightarrow> match_Score cs
      | Some rest \<Rightarrow>
          (if takeWhile is_score_unit rest \<noteq> [] then Some (takeWhile is_score_unit rest)
           else match_Score cs))"

text \<open>
  \<open>s.replace(/Score: [\d.]+ - /, '')\<close>: the leftmost match is removed. The blank that
  follows the run is outside the class, so the run of a match is the longest one.
\<close>

fun replace_Score :: "jsstring \<Rightarrow> jsstring" where
  "replace_Score [] = []"
| "replace_Score (c # cs) =
     (case strip_prefix (js ''Score: '') (c # cs) of
        None \<Rightarrow> c # replace_Score cs
      | Some rest \<Rightarrow>
          (if takeWhile is_score_unit rest \<noteq> [] then
             (case strip_prefix (js '' - '') (dropWhile is_score_unit rest) of
                None \<Rightarrow> c # replace_Score cs
              | Some tail \<Rightarrow> tail)
           else c # replace_Score cs))"

text \<open>
  \<open>parseFloat\<close> on a string of digits and dots, which is all that the capture group
  holds: the longest prefix \<open>digits\<close>, \<open>digits.\<close>, \<open>digits.digits\<close> or \<open>.digits\<close> is read
  and gives the double nearest to its decimal value; without such a prefix the result is
  \<open>NaN\<close>.
\<close>

definition digits_value :: "jsstring \<Rightarrow> nat" where
  "digits_value ds = foldl (\<lambda>acc d. 10 * acc + (unat d - 48)) 0 ds"

definition parseFloat :: "jsstring \<Rightarrow> number" where
  "parseFloat s =
     (let ip = takeWhile is_digit s; r = dropWhile is_digit s;
          fp = (case r of [] \<Rightarrow> [] | d # r' \<Rightarrow>
                  (if d = cu CHR ''.'' then takeWhile is_digit r' else []))
      in if ip = [] \<and> fp = [] then NaN
         else to_double (of_nat (digits_value ip) + of_nat (digits_value fp) / 10 ^ length fp))"

section \<open>Match scorer (generateMatchAnalysis)\<close>

record match_details =
  positionMatch :: "number option"
  seniorityMatch :: "number option"
  skillsMatch :: "number option"
  experienceMatch :: "number option"
  educationMatch :: "number option"
  locationMatch :: "number option"
  softSkillsMatch :: "number option"
  keyStrengths :: "jsstring list"
  potentialConcerns :: "jsstring list"

record match_analysis =
  percentage :: number
  explanation :: jsstring
  details :: match_details

text \<open>The schema of the analysis: every score is a number between 0 and 100.\<close>

definition in_0_100 :: "number \<Rightarrow> bool" where
  "in_0_100 n = (case n of Num x \<Rightarrow> 0 \<le> x \<and> x \<le> 100 | _ \<Rightarrow> False)"

definition opt_in_0_100 :: "number option \<Rightarrow> bool" where
  "opt_in_0_100 v = (case v of None \<Rightarrow> True | Some n \<Rightarrow> in_0_100 n)"

definition analysis_schema :: "match_analysis \<Rightarrow> bool" where
  "analysis_schema a =
     (in_0_100 (percentage a)
      \<and> opt_in_0_100 (positionMatch (details a))
      \<and> opt_in_0_100 (seniorityMatch (details a))
      \<and> opt_in_0_100 (skillsMatch (details a))
      \<and> opt_in_0_100 (experienceMatch (details a))
      \<and> opt_in_0_100 (educationMatch (details a))
      \<and> opt_in_0_100 (locationMatch (details a))
      \<and> opt_in_0_100 (softSkillsMatch (details a)))"

text \<open>
  \<open>generateObject\<close> with the analysis schema: the answer of the language model is the
  parameter \<open>answer\<close> (\<open>None\<close> when the call fails); an answer outside the schema is
  rejected, which throws as well.
\<close>

definition generateObject_analysis :: "match_analysis option \<Rightarrow> match_analysis option" where
  "generateObject_analysis answer =
     (case answer of
        None \<Rightarrow> None
      | Some a \<Rightarrow> (if analysis_schema a then Some a else None))"

definition fallback_analysis :: "number \<Rightarrow> match_analysis" where
  "fallback_analysis semanticScore =
     (let fallbackPercentage =
            Math_min (Num 100) (Math_max (Num 0) (js_times semanticScore (Num 100)))
      in \<lparr> percentage = Math_round fallbackPercentage,
           explanation = js ''Match based on semantic similarity to your search criteria.'',
           details = \<lparr> positionMatch = None, seniorityMatch = None, skillsMatch = None,
                       experienceMatch = None, educationMatch = None, locationMatch = None,
                       softSkillsMatch = None,
                       keyStrengths = [js ''Semantic similarity to search query''],
                       potentialConcerns = [js ''Detailed analysis unavailable''] \<rparr> \<rparr>)"

text \<open>
  \<open>generateMatchAnalysis\<close>. The criteria, the candidate data and the query only feed the
  prompt; \<open>answer\<close> is what the model returns for that prompt.
\<close>

definition generateMatchAnalysis :: "match_analysis option \<Rightarrow> number \<Rightarrow> match_analysis" where
  "generateMatchAnalysis answer semanticScore =
     (case generateObject_analysis answer of
        Some a \<Rightarrow> a
      | None \<Rightarrow> fallback_analysis semanticScore)"

section \<open>Search criteria and the enriched query (route.ts, lines 8 to 31 and 158 to 216)\<close>

datatype seniority = Entry | Junior | Mid | Senior | Lead | Principal | Director | Vp | C_level

datatype skill_category =
  Programming | Framework | Database | Cloud | Devops | Design | Language | Other

datatype skill_level = Beginner | Intermediate | Advanced | Expert

fun seniority_text :: "seniority \<Rightarrow> jsstring" where
  "seniority_text Entry = js ''entry''"
| "seniority_text Junior = js ''junior''"
| "seniority_text Mid = js ''mid''"
| "seniority_text Senior = js ''senior''"
| "seniority_text Lead = js ''lead''"
| "seniority_text Principal = js ''principal''"
| "seniority_text Director = js ''director''"
| "seniority_text Vp = js ''vp''"
| "seniority_text C_level = js ''c-level''"

fun skill_category_text :: "skill_category \<Rightarrow> jsstring" where
  "skill_category_text Programming = js ''programming''"
| "skill_category_text Framework = js ''framework''"
| "skill_category_text Database = js ''database''"
| "skill_category_text Cloud = js ''cloud''"
| "skill_category_text Devops = js ''devops''"
| "skill_category_text Design = js ''design''"
| "skill_category_text Language = js ''language''"
| "skill_category_text Other = js ''other''"

fun skill_level_text :: "skill_level \<Rightarrow> jsstring" where
  "skill_level_text Beginner = js ''beginner''"
| "skill_level_text Intermediate = js ''intermediate''"
| "skill_level_text Advanced = js ''advanced''"
| "skill_level_text Expert = js ''expert''"

record criteria_position =
  cp_title :: "jsstring option"
  cp_seniority :: "seniority option"

record criteria_skill =
  cs_name :: jsstring
  cs_category :: "skill_category option"
  cs_minSeniority :: "skill_level option"

record criteria_experience =
  ce_minYears :: "number option"
  ce_maxYears :: "number option"
  ce_companies :: "jsstring list option"
  ce_industries :: "jsstring list option"

record criteria_education =
  ced_degree :: "jsstring option"
  ced_field :: "jsstring option"
  ced_institution :: "jsstring option"

record search_criteria =
  c_position :: "criteria_position option"
  c_skills :: "criteria_skill list option"
  c_experience :: "criteria_experience option"
  c_education :: "criteria_education option"
  c_location :: "jsstring option"
  c_softSkills :: "jsstring list option"

text \<open>\<open>xs.join(sep)\<close>.\<close>

fun join :: "jsstring \<Rightarrow> jsstring list \<Rightarrow> jsstring" where
  "join sep [] = []"
| "join sep [x] = x"
| "join sep (x # y # ys) = x @ sep @ join sep (y # ys)"

text \<open>A string that is present and not empty, as the test \<open>if (a?.b)\<close> on a string sees it.\<close>

definition present_text :: "jsstring option \<Rightarrow> jsstring option" where
  "present_text v = (case v of Some t \<Rightarrow> (if t \<noteq> [] then Some t else None) | None \<Rightarrow> None)"

text \<open>An array that is present and not empty, as \<open>if (a?.length)\<close> sees it.\<close>

definition present_list :: "'a list option \<Rightarrow> 'a list option" where
  "present_list v = (case v of Some xs \<Rightarrow> (if xs \<noteq> [] then Some xs else None) | None \<Rightarrow> None)"

text \<open>A number that is present, not zero and not \<open>NaN\<close>.\<close>

definition present_number :: "number option \<Rightarrow> number option" where
  "present_number v =
     (case v of Some n \<Rightarrow> (if n \<noteq> NaN \<and> n \<noteq> Num 0 then Some n else None) | None \<Rightarrow> None)"

definition skillText :: "criteria_skill \<Rightarrow> jsstring" where
  "skillText skill =
     cs_name skill
     @ (case cs_minSeniority skill of
          Some l \<Rightarrow> js '' ('' @ skill_level_text l @ js '' level)'' | None \<Rightarrow> [])
     @ (case cs_category skill of
          Some c \<Rightarrow> js '' ['' @ skill_category_text c @ js '']'' | None \<Rightarrow> [])"

text \<open>
  The array \<open>enhancedQueryParts\<close> after the nine tests of lines 170 to 210, in their
  order. \<open>toString\<close> is the conversion of a number to text that the template literal of
  line 189 applies.
\<close>

definition enhancedQueryParts :: "(number \<Rightarrow> jsstring) \<Rightarrow> search_criteria \<Rightarrow> jsstring list" where
  "enhancedQueryParts toString c =
     (case present_text (Option.bind (c_position c) cp_title) of
        Some t \<Rightarrow> [js ''position: '' @ t] | None \<Rightarrow> [])
     @ (case Option.bind (c_position c) cp_seniority of
        Some sn \<Rightarrow> [js ''seniority: '' @ seniority_text sn] | None \<Rightarrow> [])
     @ (case present_list (c_skills c) of
        Some sk \<Rightarrow> [js ''skills: '' @ join (js '', '') (map skillText sk)] | None \<Rightarrow> [])
     @ (case present_number (Option.bind (c_experience c) ce_minYears) of
        Some n \<Rightarrow> [js ''minimum '' @ toString n @ js '' years experience''] | None \<Rightarrow> [])
     @ (case present_list (Option.bind (c_experience c) ce_companies) of
        Some cs \<Rightarrow> [js ''companies: '' @ join (js '', '') cs] | None \<Rightarrow> [])
     @ (case present_text (Option.bind (c_education c) ced_degree) of
        Some d \<Rightarrow> [js ''education: '' @ d] | None \<Rightarrow> [])
     @ (case present_text (Option.bind (c_education c) ced_field) of
        Some f \<Rightarrow> [js ''field: '' @ f] | None \<Rightarrow> [])
     @ (case present_text (c_location c) of
        Some l \<Rightarrow> [js ''location: '' @ l] | None \<Rightarrow> [])
     @ (case present_list (c_softSkills c) of
        Some ss \<Rightarrow> [js ''soft skills: '' @ join (js '', '') ss] | None \<Rightarrow> [])"

text \<open>The value of \<open>searchQuery\<close> at line 218, given the value of \<open>parsedCriteria\<close>.\<close>

definition searchQuery_of ::
  "(number \<Rightarrow> jsstring) \<Rightarrow> jsstring \<Rightarrow> search_criteria option \<Rightarrow> jsstring" where
  "searchQuery_of toString query parsedCriteria =
     (case parsedCriteria of
        None \<Rightarrow> query
      | Some c \<Rightarrow>
          (let parts = enhancedQueryParts toString c
           in if length parts > 0 then join (js '' | '') parts else query))"

section \<open>Candidate retriever (semanticSearchResumes and getResumes)\<close>

datatype error =
    Failed_to_fetch_resumes
  | Failed_to_perform_semantic_search
  | Failed_to_add_resume
  | TypeError

record document =
  pageContent :: jsstring
  metadata :: jsobject

record resume_data =
  resume_id :: jsvalue
  document :: jsstring
  cmetadata :: jsobject

text \<open>A row of the table \<open>langchain_pg_embedding\<close>, as \<open>getResumes\<close> reads it.\<close>

record embedding_row =
  row_id :: jsstring
  row_document :: jsstring
  row_cmetadata :: jsobject

text \<open>
  The collaborators of the search: the two language-model calls (\<open>None\<close> when the call
  throws), the vector store, the table behind \<open>getResumes\<close>, and the library functions
  \<open>JSON.parse\<close>, the number-to-text conversion and the fallback identifier
  \<open>langchain-${Date.now()}-${Math.random()}\<close> of the hit with the given index.
\<close>

record env =
  llm_criteria :: "jsstring \<Rightarrow> search_criteria option"
  llm_analysis ::
    "search_criteria option \<Rightarrow> jsvalue \<Rightarrow> jsstring \<Rightarrow> number \<Rightarrow> match_analysis option"
  searchVectorsWithScore :: "jsstring \<Rightarrow> number \<Rightarrow> (document \<times> number) list option"
  table_rows :: "embedding_row list option"
  JSON_parse :: "jsstring \<Rightarrow> jsvalue option"
  number_toString :: "number \<Rightarrow> jsstring"
  fallback_id :: "nat \<Rightarrow> jsstring"

text \<open>\<open>s.split('\n')\<close>.\<close>

fun split_lines :: "jsstring \<Rightarrow> jsstring list" where
  "split_lines [] = [[]]"
| "split_lines (c # cs) =
     (if c = 0xA then [] # split_lines cs
      else (case split_lines cs of l # ls \<Rightarrow> (c # l) # ls | [] \<Rightarrow> [[c]]))"

text \<open>Lines 479 and 480: the second non-blank line without \<open>*\<close> and \<open>#\<close>, trimmed.\<close>

definition title_of :: "jsstring \<Rightarrow> jsstring" where
  "title_of s =
     (let lines = filter (\<lambda>line. trim line \<noteq> []) (split_lines s)
      in if length lines > 1
         then trim (filter (\<lambda>u. u \<noteq> cu CHR ''*'' \<and> u \<noteq> cu CHR ''#'') (lines ! 1))
         else js ''No Title'')"

text \<open>The decimal digits of a natural number.\<close>

fun digits_of :: "nat \<Rightarrow> jsstring" where
  "digits_of n =
     (if n < 10 then [of_nat (48 + n)] else digits_of (n div 10) @ [of_nat (48 + n mod 10)])"

declare digits_of.simps [simp del]

text \<open>
  \<open>score.toFixed(3)\<close>: the closest multiple of 1/1000, the larger one of two equally
  close, on the absolute value. From \<open>10^21\<close> on, and for a number that is not finite,
  \<open>toFixed\<close> is the plain conversion.
\<close>

definition toFixed3 :: "(number \<Rightarrow> jsstring) \<Rightarrow> number \<Rightarrow> jsstring" where
  "toFixed3 toString score =
     (case score of
        Num x \<Rightarrow>
          (if 10 ^ 21 \<le> \<bar>x\<bar> then toString score
           else (let n = nat \<lfloor>\<bar>x\<bar> * 1000 + 1 / 2\<rfloor>;
                     ds = digits_of n;
                     padded = replicate (4 - length ds) (cu CHR ''0'') @ ds
                 in (if x < 0 then js ''-'' else [])
                    @ take (length padded - 3) padded @ js ''.''
                    @ drop (length padded - 3) padded))
      | _ \<Rightarrow> toString score)"

text \<open>The record built for one hit of the vector search (lines 477 to 493).\<close>

definition hit_to_resume :: "env \<Rightarrow> nat \<Rightarrow> document \<times> number \<Rightarrow> resume_data" where
  "hit_to_resume env i hit =
     (case hit of (doc, score) \<Rightarrow>
        \<lparr> resume_id = js_or (get_prop (metadata doc) ''id'') (Str (fallback_id env i)),
          document = pageContent doc,
          cmetadata =
            [ js ''name'' \<mapsto> get_prop (metadata doc) ''name'',
              js ''fileName'' \<mapsto> get_prop (metadata doc) ''filename'',
              js ''title'' \<mapsto> Str (title_of (pageContent doc)),
              js ''summary'' \<mapsto>
                Str (js ''Score: '' @ toFixed3 (number_toString env) score @ js '' - ''
                     @ substring (pageContent doc) 0 200 @ js ''...'') ]
            ++ metadata doc \<rparr>)"

definition row_to_resume :: "embedding_row \<Rightarrow> resume_data" where
  "row_to_resume row =
     \<lparr> resume_id = Str (row_id row),
       document = row_document row,
       cmetadata =
         [ js ''name'' \<mapsto> get_prop (row_cmetadata row) ''name'',
           js ''fileName'' \<mapsto> get_prop (row_cmetadata row) ''filename'',
           js ''title'' \<mapsto> Str (title_of (row_document row)),
           js ''summary'' \<mapsto> Str (substring (row_document row) 0 200 @ js ''...'') ]
         ++ row_cmetadata row \<rparr>"

definition getResumes :: "env \<Rightarrow> error + resume_data list" where
  "getResumes env =
     (case table_rows env of
        None \<Rightarrow> Inl Failed_to_fetch_resumes
      | Some rows \<Rightarrow> Inr (map row_to_resume rows))"

text \<open>The threshold \<open>0.1\<close> of line 476 is the double nearest to one tenth.\<close>

definition threshold_0_1 :: number where
  "threshold_0_1 = Num (3602879701896397 / 36028797018963968)"

text \<open>
  \<open>semanticSearchResumes\<close>. For a blank query the promise of \<open>getResumes\<close> is returned as
  it is; a failure of the vector search is caught and thrown again under the message of
  line 499.
\<close>

definition semanticSearchResumes :: "env \<Rightarrow> jsstring \<Rightarrow> number \<Rightarrow> error + resume_data list" where
  "semanticSearchResumes env query limit =
     (if trim query = [] then getResumes env
      else (case searchVectorsWithScore env query limit of
              None \<Rightarrow> Inl Failed_to_perform_semantic_search
            | Some vectorResults \<Rightarrow>
                Inr (map (\<lambda>(i, hit). hit_to_resume env i hit)
                       (filter (\<lambda>(i, hit). js_greater (snd hit) threshold_0_1)
                          (enumerate 0 vectorResults)))))"

section \<open>Orchestrator (the tool searchResumes of route.ts)\<close>

record scored_candidate =
  sc_id :: jsvalue
  sc_name :: jsvalue
  sc_title :: jsvalue
  sc_summary :: jsvalue
  sc_content :: jsstring
  sc_confidence :: number
  sc_rawScore :: number
  sc_matchExplanation :: jsstring
  sc_matchDetails :: match_details

record search_result =
  totalResults :: nat
  averageConfidence :: number
  sr_query :: jsstring
  sr_originalQuery :: jsstring
  sr_parsedCriteria :: "search_criteria option"
  candidates :: "scored_candidate list"

definition parseSearchQuery :: "env \<Rightarrow> jsstring \<Rightarrow> search_criteria option" where
  "parseSearchQuery env query = llm_criteria env query"

text \<open>The values on which \<open>?.match\<close> and \<open>?.replace\<close> do not throw.\<close>

definition summary_readable :: "jsvalue \<Rightarrow> bool" where
  "summary_readable summary =
     (case summary of Undefined \<Rightarrow> True | Null \<Rightarrow> True | Str s \<Rightarrow> True | _ \<Rightarrow> False)"

text \<open>
  \<open>resume.cmetadata?.summary?.match(/Score: ([\d.]+)/)\<close>: \<open>undefined\<close> and \<open>null\<close> give
  \<open>undefined\<close>, a string is matched, and any other value has no method \<open>match\<close>.
\<close>

definition summary_match :: "jsvalue \<Rightarrow> error + jsstring option" where
  "summary_match summary =
     (case summary of
        Undefined \<Rightarrow> Inr None
      | Null \<Rightarrow> Inr None
      | Str s \<Rightarrow> Inr (match_Score s)
      | _ \<Rightarrow> Inl TypeError)"

definition summary_replace :: "jsvalue \<Rightarrow> jsvalue" where
  "summary_replace summary =
     (case summary of Str s \<Rightarrow> Str (replace_Score s) | _ \<Rightarrow> Undefined)"

text \<open>The body of the callback of line 221 for one retrieved resume.\<close>

definition score_candidate ::
  "env \<Rightarrow> search_criteria option \<Rightarrow> jsstring \<Rightarrow> resume_data \<Rightarrow> error + scored_candidate" where
  "score_candidate env parsedCriteria query resume =
     (case summary_match (get_prop (cmetadata resume) ''summary'') of
        Inl e \<Rightarrow> Inl e
      | Inr scoreMatch \<Rightarrow>
          (let rawScore = (case scoreMatch of Some g \<Rightarrow> parseFloat g | None \<Rightarrow> Num 0);
               resumeData = (case JSON_parse env (document resume) of
                               Some v \<Rightarrow> v | None \<Rightarrow> Object []);
               matchAnalysis =
                 generateMatchAnalysis (llm_analysis env parsedCriteria resumeData query rawScore)
                   rawScore
           in Inr \<lparr> sc_id = resume_id resume,
                    sc_name = js_or (get_prop (cmetadata resume) ''name'') (Str (js ''Unknown'')),
                    sc_title = js_or (get_prop (cmetadata resume) ''title'') (Str (js ''No title'')),
                    sc_summary = js_or (summary_replace (get_prop (cmetadata resume) ''summary''))
                                   (Str (js ''No summary'')),
                    sc_content = substring (document resume) 0 500 @ js ''...'',
                    sc_confidence = percentage matchAnalysis,
                    sc_rawScore = rawScore,
                    sc_matchExplanation = explanation matchAnalysis,
                    sc_matchDetails = details matchAnalysis \<rparr>))"

text \<open>
  \<open>Promise.all\<close> over tasks whose outcomes are \<open>outcomes\<close> and which complete in the order
  \<open>order\<close> (a list of task indices). A fulfilled task stores its value in the slot of
  its index; the first rejected task rejects the whole; when every slot is filled the
  array of the slots is the result. \<open>None\<close>: the promise is still pending.
\<close>

fun settle :: "nat list \<Rightarrow> (error + 'a) list \<Rightarrow> 'a option list \<Rightarrow> (error + 'a list) option" where
  "settle [] outcomes slots =
     (if list_all (\<lambda>v. v \<noteq> None) slots then Some (Inr (map the slots)) else None)"
| "settle (i # order) outcomes slots =
     (if i < length outcomes then
        (case outcomes ! i of
           Inl e \<Rightarrow> Some (Inl e)
         | Inr v \<Rightarrow> settle order outcomes (slots[i := Some v]))
      else settle order outcomes slots)"

definition Promise_all :: "nat list \<Rightarrow> (error + 'a) list \<Rightarrow> (error + 'a list) option" where
  "Promise_all order outcomes = settle order outcomes (replicate (length outcomes) None)"

text \<open>Lines 253 to 255.\<close>

definition avgConfidence :: "scored_candidate list \<Rightarrow> number" where
  "avgConfidence resultsWithConfidence =
     (if length resultsWithConfidence > 0
      then Math_round
             (js_divide (foldl (\<lambda>sum r. js_plus sum (sc_confidence r)) (Num 0) resultsWithConfidence)
                (Num (of_nat (length resultsWithConfidence))))
      else Num 0)"

text \<open>Lines 218 to 264: retrieval with \<open>searchQuery\<close>, scoring, aggregation.\<close>

definition retrieve_and_score ::
  "env \<Rightarrow> nat list \<Rightarrow> jsstring \<Rightarrow> jsstring \<Rightarrow> search_criteria option \<Rightarrow> number
     \<Rightarrow> (error + search_result) option" where
  "retrieve_and_score env order query searchQuery parsedCriteria limit =
     (case semanticSearchResumes env searchQuery limit of
        Inl e \<Rightarrow> Some (Inl e)
      | Inr resumes \<Rightarrow>
          (case Promise_all order (map (score_candidate env parsedCriteria query) resumes) of
             None \<Rightarrow> None
           | Some (Inl e) \<Rightarrow> Some (Inl e)
           | Some (Inr resultsWithConfidence) \<Rightarrow>
               Some (Inr \<lparr> totalResults = length resultsWithConfidence,
                           averageConfidence = avgConfidence resultsWithConfidence,
                           sr_query = searchQuery,
                           sr_originalQuery = query,
                           sr_parsedCriteria = parsedCriteria,
                           candidates = resultsWithConfidence \<rparr>)))"

text \<open>
  \<open>execute({ query, limit, useStructuredSearch })\<close>; \<open>order\<close> is the order in which the
  scoring tasks complete.
\<close>

definition parsedCriteria_of :: "env \<Rightarrow> jsstring \<Rightarrow> bool \<Rightarrow> search_criteria option" where
  "parsedCriteria_of env query useStructuredSearch =
     (if useStructuredSearch then parseSearchQuery env query else None)"

definition execute ::
  "env \<Rightarrow> nat list \<Rightarrow> jsstring \<Rightarrow> number \<Rightarrow> bool \<Rightarrow> (error + search_result) option" where
  "execute env order query limit useStructuredSearch =
     (let parsedCriteria = parsedCriteria_of env query useStructuredSearch;
          searchQuery = searchQuery_of (number_toString env) query parsedCriteria
      in retrieve_and_score env order query searchQuery parsedCriteria limit)"

section \<open>Regular expressions of the ingestion service\<close>

text \<open>
  The patterns of \<open>extractExperienceSection\<close>, \<open>extractEducationSection\<close> and
  \<open>extractSkillsSection\<close> are built from literals, the classes \<open>\s\<close>, \<open>\d\<close> and
  \<open>[\s\-]\<close> extended by the en dash and the em dash, sequence, alternative, \<open>?\<close> and \<open>+\<close> on a class; all carry the flag
  \<open>i\<close>. \<open>search\<close> only asks whether a match starts at a position.
\<close>

datatype atom = Chr char | Space | Digit | SpaceOrDash

datatype regex =
    Eps
  | Atom atom
  | Seq regex regex
  | Alt regex regex
  | Opt regex
  | Plus atom

definition lower :: "code_unit \<Rightarrow> code_unit" where
  "lower u = (if 0x41 \<le> u \<and> u \<le> 0x5A then u + 0x20 else u)"

fun atom_ok :: "atom \<Rightarrow> code_unit \<Rightarrow> bool" where
  "atom_ok (Chr c) u = (lower u = lower (cu c))"
| "atom_ok Space u = is_ws u"
| "atom_ok Digit u = is_digit u"
| "atom_ok SpaceOrDash u = (is_ws u \<or> u = 0x2D \<or> u = 0x2013 \<or> u = 0x2014)"

text \<open>The rests of the string after one or more units of the class.\<close>

fun plus_rests :: "atom \<Rightarrow> jsstring \<Rightarrow> jsstring list" where
  "plus_rests a [] = []"
| "plus_rests a (c # cs) = (if atom_ok a c then plus_rests a cs @ [cs] else [])"

text \<open>The rests of the string after each way in which the expression matches a prefix.\<close>

fun rests :: "regex \<Rightarrow> jsstring \<Rightarrow> jsstring list" where
  "rests Eps s = [s]"
| "rests (Atom a) [] = []"
| "rests (Atom a) (c # cs) = (if atom_ok a c then [cs] else [])"
| "rests (Seq r1 r2) s = concat (map (rests r2) (rests r1 s))"
| "rests (Alt r1 r2) s = rests r1 s @ rests r2 s"
| "rests (Opt r) s = rests r s @ [s]"
| "rests (Plus a) s = plus_rests a s"

definition matches_at :: "regex \<Rightarrow> jsstring \<Rightarrow> bool" where
  "matches_at r s = (rests r s \<noteq> [])"

text \<open>\<open>content.search(r)\<close>: the index of the leftmost match, or \<open>-1\<close>.\<close>

fun search_from :: "regex \<Rightarrow> jsstring \<Rightarrow> int \<Rightarrow> int" where
  "search_from r [] i = (if matches_at r [] then i else -1)"
| "search_from r (c # cs) i = (if matches_at r (c # cs) then i else search_from r cs (i + 1))"

definition search :: "jsstring \<Rightarrow> regex \<Rightarrow> int" where
  "search content r = search_from r content 0"

fun word :: "string \<Rightarrow> regex" where
  "word [] = Eps"
| "word (c # cs) = Seq (Atom (Chr c)) (word cs)"

fun alts :: "regex list \<Rightarrow> regex" where
  "alts [] = Alt Eps Eps"
| "alts [r] = r"
| "alts (r # rs) = Alt r (alts rs)"

fun seqs :: "regex list \<Rightarrow> regex" where
  "seqs [] = Eps"
| "seqs (r # rs) = Seq r (seqs rs)"

definition experiencePattern1 :: regex where
  "experiencePattern1 =
     alts [seqs [Opt (seqs [word ''work'', Plus Space]), word ''experience''],
           word ''employment'',
           seqs [word ''professional'', Plus Space, word ''experience''],
           word ''career'']"

definition experiencePattern2 :: regex where
  "experiencePattern2 =
     alts [seqs [Opt (seqs [word ''work'', Plus Space]), word ''history''],
           seqs [word ''employment'', Plus Space, word ''history'']]"

definition experiencePattern3 :: regex where
  "experiencePattern3 = seqs [word ''position'', Opt (word ''s''), Plus Space, word ''held'']"

definition experiencePatterns :: "regex list" where
  "experiencePatterns = [experiencePattern1, experiencePattern2, experiencePattern3]"

definition datePattern :: regex where
  "datePattern =
     seqs [alts [word ''19'', word ''20''], Atom Digit, Atom Digit, Plus SpaceOrDash,
           alts [word ''present'', word ''current'',
                 seqs [alts [word ''19'', word ''20''], Atom Digit, Atom Digit]]]"

definition educationPattern1 :: regex where
  "educationPattern1 =
     alts [word ''education'', word ''academic'', word ''degree'', word ''university'',
           word ''college'', word ''school'']"

definition educationPattern2 :: regex where
  "educationPattern2 =
     alts [word ''bachelor'', word ''master'', word ''phd'', word ''doctorate'',
           word ''certificate'', word ''diploma'']"

definition educationPattern3 :: regex where
  "educationPattern3 =
     alts [seqs [word ''b'', Opt (word ''.''), alts [word ''s'', word ''a''], Opt (word ''.'')],
           seqs [word ''m'', Opt (word ''.''), alts [word ''s'', word ''a''], Opt (word ''.'')],
           seqs [word ''ph'', Opt (word ''.''), word ''d'', Opt (word ''.'')]]"

definition educationPatterns :: "regex list" where
  "educationPatterns = [educationPattern1, educationPattern2, educationPattern3]"

definition skillsPattern1 :: regex where
  "skillsPattern1 =
     alts [word ''skills'', word ''competencies'', word ''technologies'',
           seqs [word ''technical'', Plus Space, word ''skills'']]"

definition skillsPattern2 :: regex where
  "skillsPattern2 =
     alts [word ''programming'', word ''software'', word ''tools'', word ''languages'']"

definition skillsPattern3 :: regex where
  "skillsPattern3 =
     alts [word ''proficient'',
           seqs [word ''experience'', Plus Space, word ''with''],
           seqs [word ''familiar'', Plus Space, word ''with'']]"

definition skillsPatterns :: "regex list" where
  "skillsPatterns = [skillsPattern1, skillsPattern2, skillsPattern3]"

section \<open>Section-aware extraction (extractResumeContent and its helpers)\<close>

definition maxChars :: nat where
  "maxChars = 40000 * 4"

text \<open>\<open>.replace(/\s+/g, ' ')\<close>.\<close>

function collapse_ws :: "jsstring \<Rightarrow> jsstring" where
  "collapse_ws [] = []"
| "collapse_ws (c # cs) =
     (if is_ws c then cu CHR '' '' # collapse_ws (dropWhile is_ws cs) else c # collapse_ws cs)"
  by pat_completeness auto
termination
  by (relation "measure length") (auto simp: le_imp_less_Suc length_dropWhile_le)

text \<open>The units that \<open>.replace(/[^\x20-\x7E\n\r\t]/g, '')\<close> keeps.\<close>

definition printable :: "code_unit \<Rightarrow> bool" where
  "printable u = ((0x20 \<le> u \<and> u \<le> 0x7E) \<or> u = 0xA \<or> u = 0xD \<or> u = 0x9)"

text \<open>
  \<open>.replace(/(.)\1{10,}/g, '$1$1$1')\<close>: a unit other than a line terminator that is
  followed by ten or more copies of itself is replaced, with all its copies, by three.
\<close>

definition line_terminator :: "code_unit \<Rightarrow> bool" where
  "line_terminator u = (u = 0xA \<or> u = 0xD \<or> u = 0x2028 \<or> u = 0x2029)"

function collapse_repeats :: "jsstring \<Rightarrow> jsstring" where
  "collapse_repeats [] = []"
| "collapse_repeats (c # cs) =
     (if \<not> line_terminator c \<and> 10 \<le> length (takeWhile (\<lambda>u. u = c) cs)
      then c # c # c # collapse_repeats (dropWhile (\<lambda>u. u = c) cs)
      else c # collapse_repeats cs)"
  by pat_completeness auto
termination
  by (relation "measure length") (auto simp: le_imp_less_Suc length_dropWhile_le)

text \<open>Lines 521 to 525.\<close>

definition cleanup :: "jsstring \<Rightarrow> jsstring" where
  "cleanup content = trim (collapse_repeats (filter printable (collapse_ws content)))"

definition extractSection :: "jsstring \<Rightarrow> int \<Rightarrow> int \<Rightarrow> jsstring" where
  "extractSection content st maxLength =
     trim (substring content st (min (st + maxLength) (int (length content))))"

text \<open>The loop over the patterns shared by the three section locators.\<close>

fun first_pattern_section :: "regex list \<Rightarrow> jsstring \<Rightarrow> int \<Rightarrow> jsstring option" where
  "first_pattern_section [] content maxLength = None"
| "first_pattern_section (pattern # patterns) content maxLength =
     (let match = search content pattern
      in if match \<noteq> -1 then Some (extractSection content match maxLength)
         else first_pattern_section patterns content maxLength)"

definition extractExperienceSection :: "jsstring \<Rightarrow> jsstring" where
  "extractExperienceSection content =
     (case first_pattern_section experiencePatterns content 4000 of
        Some section \<Rightarrow> section
      | None \<Rightarrow>
          (let firstMatch = search content datePattern
           in if firstMatch \<noteq> -1 then extractSection content (max 0 (firstMatch - 200)) 4000
              else []))"

definition extractEducationSection :: "jsstring \<Rightarrow> jsstring" where
  "extractEducationSection content =
     (case first_pattern_section educationPatterns content 3000 of
        Some section \<Rightarrow> section | None \<Rightarrow> [])"

definition extractSkillsSection :: "jsstring \<Rightarrow> jsstring" where
  "extractSkillsSection content =
     (case first_pattern_section skillsPatterns content 3000 of
        Some section \<Rightarrow> section | None \<Rightarrow> [])"

text \<open>The separator \<open>'\n\n'\<close>.\<close>

definition nl2 :: jsstring where
  "nl2 = [0xA, 0xA]"

text \<open>The array \<open>sections\<close> of lines 529 to 557.\<close>

definition sections_of :: "jsstring \<Rightarrow> jsstring list" where
  "sections_of cleanedContent =
     (let personalInfoSection = extractSection cleanedContent 0 1000;
          experienceSection = extractExperienceSection cleanedContent;
          educationSection = extractEducationSection cleanedContent;
          skillsSection = extractSkillsSection cleanedContent
      in (if personalInfoSection \<noteq> []
          then [js ''=== PERSONAL INFORMATION ==='', personalInfoSection] else [])
       @ (if experienceSection \<noteq> []
          then [js ''=== WORK EXPERIENCE ==='', substring experienceSection 0 5000] else [])
       @ (if educationSection \<noteq> []
          then [js ''=== EDUCATION ==='', substring educationSection 0 1500] else [])
       @ (if skillsSection \<noteq> []
          then [js ''=== SKILLS ==='', substring skillsSection 0 1500] else []))"

text \<open>Lines 559 to 567: the sections joined, truncated if still too large.\<close>

definition sectionAwareExtraction :: "jsstring \<Rightarrow> jsstring" where
  "sectionAwareExtraction cleanedContent =
     (let combinedContent = join nl2 (sections_of cleanedContent)
      in if maxChars < length combinedContent
         then substring combinedContent 0 (int maxChars - 100) @ nl2
              @ js ''[Content truncated for processing...]''
         else combinedContent)"

definition extractResumeContent :: "jsstring \<Rightarrow> jsstring" where
  "extractResumeContent content =
     (if length content \<le> maxChars then content
      else (let cleanedContent = cleanup content
            in if maxChars < length cleanedContent then sectionAwareExtraction cleanedContent
               else cleanedContent))"

section \<open>Resume ingestion (addResume) and the embedding store (addVectors)\<close>

text \<open>The parsed resume, after \<open>ResumeSchema\<close> (src/lib/schemas/resume-schema.ts).\<close>

record position_info =
  pos_title :: jsstring
  pos_seniority :: seniority

record personal_information =
  pi_name :: jsstring
  pi_email :: "jsstring option"
  pi_phone :: "jsstring option"
  pi_address :: "jsstring option"
  pi_website :: "jsstring option"
  pi_linkedin :: "jsstring option"
  pi_position :: "position_info option"

record experience =
  exp_title :: jsstring
  exp_company :: jsstring
  exp_location :: "jsstring option"
  exp_startDate :: jsstring
  exp_endDate :: "jsstring option"
  exp_description :: "jsstring option"
  exp_achievements :: "jsstring list option"

record education_entry =
  edu_degree :: jsstring
  edu_field :: jsstring
  edu_institution :: jsstring
  edu_location :: "jsstring option"
  edu_graduationDate :: "jsstring option"
  edu_gpa :: "jsstring option"
  edu_honors :: "jsstring list option"

record skill =
  skill_name :: jsstring
  skill_category :: "skill_category option"
  skill_seniority :: "skill_level option"
  skill_yearsOfExperience :: "number option"

record parsed_resume =
  personalInformation :: personal_information
  experiences :: "experience list"
  education :: "education_entry list"
  softSkills :: "jsstring list option"
  skills :: "skill list option"

text \<open>The parsed resume as the values that \<open>...parsedData\<close> spreads into the metadata.\<close>

definition opt_entry :: "string \<Rightarrow> ('a \<Rightarrow> jsvalue) \<Rightarrow> 'a option \<Rightarrow> (jsstring \<times> jsvalue) list" where
  "opt_entry k f v = (case v of None \<Rightarrow> [] | Some x \<Rightarrow> [(js k, f x)])"

definition strings_value :: "jsstring list \<Rightarrow> jsvalue" where
  "strings_value xs = Array (map Str xs)"

definition position_value :: "position_info \<Rightarrow> jsvalue" where
  "position_value p =
     Object [(js ''title'', Str (pos_title p)),
             (js ''seniority'', Str (seniority_text (pos_seniority p)))]"

definition personal_value :: "personal_information \<Rightarrow> jsvalue" where
  "personal_value p =
     Object ([(js ''name'', Str (pi_name p))]
       @ opt_entry ''email'' Str (pi_email p) @ opt_entry ''phone'' Str (pi_phone p)
       @ opt_entry ''address'' Str (pi_address p) @ opt_entry ''website'' Str (pi_website p)
       @ opt_entry ''linkedin'' Str (pi_linkedin p)
       @ opt_entry ''position'' position_value (pi_position p))"

definition experience_value :: "experience \<Rightarrow> jsvalue" where
  "experience_value e =
     Object ([(js ''title'', Str (exp_title e)), (js ''company'', Str (exp_company e))]
       @ opt_entry ''location'' Str (exp_location e)
       @ [(js ''startDate'', Str (exp_startDate e))]
       @ opt_entry ''endDate'' Str (exp_endDate e)
       @ opt_entry ''description'' Str (exp_description e)
       @ opt_entry ''achievements'' strings_value (exp_achievements e))"

definition education_value :: "education_entry \<Rightarrow> jsvalue" where
  "education_value e =
     Object ([(js ''degree'', Str (edu_degree e)), (js ''field'', Str (edu_field e)),
              (js ''institution'', Str (edu_institution e))]
       @ opt_entry ''location'' Str (edu_location e)
       @ opt_entry ''graduationDate'' Str (edu_graduationDate e)
       @ opt_entry ''gpa'' Str (edu_gpa e)
       @ opt_entry ''honors'' strings_value (edu_honors e))"

definition skill_value :: "skill \<Rightarrow> jsvalue" where
  "skill_value s =
     Object ([(js ''name'', Str (skill_name s))]
       @ opt_entry ''category'' (\<lambda>c. Str (skill_category_text c)) (skill_category s)
       @ opt_entry ''seniority'' (\<lambda>l. Str (skill_level_text l)) (skill_seniority s)
       @ opt_entry ''yearsOfExperience'' Number (skill_yearsOfExperience s))"

definition parsedData_properties :: "parsed_resume \<Rightarrow> jsobject" where
  "parsedData_properties parsedData =
     map_of
       ([(js ''personalInformation'', personal_value (personalInformation parsedData)),
         (js ''experiences'', Array (map experience_value (experiences parsedData))),
         (js ''education'', Array (map education_value (education parsedData)))]
        @ opt_entry ''softSkills'' strings_value (softSkills parsedData)
        @ opt_entry ''skills'' (\<lambda>ss. Array (map skill_value ss)) (skills parsedData))"

text \<open>The placeholder of lines 709 to 723, used when \<open>parseResume\<close> throws.\<close>

definition placeholder_resume :: parsed_resume where
  "placeholder_resume =
     \<lparr> personalInformation =
         \<lparr> pi_name = js ''Unknown'', pi_email = None, pi_phone = None, pi_address = None,
           pi_website = None, pi_linkedin = None,
           pi_position = Some \<lparr> pos_title = js ''Unknown'', pos_seniority = Mid \<rparr> \<rparr>,
       experiences = [], education = [], softSkills = Some [], skills = Some [] \<rparr>"

text \<open>The embedding store: the documents it holds and how often it was written to.\<close>

record store =
  documents :: "document list"
  addDocuments_calls :: nat

text \<open>
  The collaborators of the ingestion: the language-model call \<open>parseResume\<close> (\<open>None\<close>
  when it throws), \<open>generateId\<close>, the clock, \<open>JSON.stringify\<close> on a parsed resume, and
  whether the store accepts the documents of a write.
\<close>

record ingest_env =
  parseResume :: "jsstring \<Rightarrow> parsed_resume option"
  generateId :: jsstring
  toISOString_now :: jsstring
  JSON_stringify :: "parsed_resume \<Rightarrow> jsstring"
  store_accepts :: "document list \<Rightarrow> bool"

text \<open>
  \<open>addVectors(chunks, metadata)\<close> of src/lib/ai/vectors.ts; \<open>None\<close> when the store
  throws. A failed write leaves the documents of the model as they were.
\<close>

definition addVectors :: "ingest_env \<Rightarrow> jsstring list \<Rightarrow> jsobject list \<Rightarrow> store \<Rightarrow> store option" where
  "addVectors env chunk_list metadata_list st =
     (let docs = map (\<lambda>(index, chunk).
                    \<lparr> pageContent = chunk,
                      metadata = (if index < length metadata_list then metadata_list ! index
                                  else Map.empty) \<rparr>)
                  (enumerate 0 chunk_list)
      in if store_accepts env docs
         then Some \<lparr> documents = documents st @ docs,
                     addDocuments_calls = Suc (addDocuments_calls st) \<rparr>
         else None)"

text \<open>The three replacements of lines 669 to 671.\<close>

definition control_unit :: "code_unit \<Rightarrow> bool" where
  "control_unit u = (u \<le> 0x8 \<or> u = 0xB \<or> u = 0xC \<or> (0xE \<le> u \<and> u \<le> 0x1F) \<or> u = 0x7F)"

definition remove_controls :: "jsstring \<Rightarrow> jsstring" where
  "remove_controls content =
     filter (\<lambda>u. u \<noteq> 0xFFFD) (filter (\<lambda>u. \<not> control_unit u) (filter (\<lambda>u. u \<noteq> 0) content))"

text \<open>The summary of line 732.\<close>

definition generated_summary :: "parsed_resume \<Rightarrow> jsstring" where
  "generated_summary parsedData =
     (let degrees = join (js '', '')
                      (map (\<lambda>edu. edu_degree edu @ js '' in '' @ edu_field edu)
                         (education parsedData))
      in digits_of (length (experiences parsedData))
         @ js '' years of experience. Education: ''
         @ (if degrees \<noteq> [] then degrees else js ''Not specified''))"

text \<open>\<open>combinedCmetadata\<close> (lines 728 to 742): later entries win.\<close>

definition combinedCmetadata :: "ingest_env \<Rightarrow> parsed_resume \<Rightarrow> jsobject \<Rightarrow> jsobject" where
  "combinedCmetadata env parsedData extra =
     [ js ''name'' \<mapsto> Str (pi_name (personalInformation parsedData)),
       js ''title'' \<mapsto> (case experiences parsedData of
                           [] \<Rightarrow> Undefined | e # _ \<Rightarrow> Str (exp_title e)),
       js ''summary'' \<mapsto> Str (generated_summary parsedData) ]
     ++ parsedData_properties parsedData
     ++ extra
     ++ [ js ''uploadedAt'' \<mapsto> Str (toISOString_now env) ]"

text \<open>Lines 694 to 725: the parsed resume, or the placeholder when the parsing throws.\<close>

definition parsedData_of :: "ingest_env \<Rightarrow> jsstring \<Rightarrow> parsed_resume" where
  "parsedData_of env limitedContent =
     (case parseResume env limitedContent of Some p \<Rightarrow> p | None \<Rightarrow> placeholder_resume)"

text \<open>The errors thrown inside the \<open>try\<close> block of \<open>addResume\<close>.\<close>

datatype cause =
    Resume_content_cannot_be_empty
  | Resume_content_is_empty_after_cleaning
  | Store_error

text \<open>
  The \<open>try\<close> block of \<open>addResume\<close> (lines 662 to 778), with the store passed through;
  \<open>extra\<close> is the optional argument \<open>cmetadata\<close> (empty when it is left out).
  \<open>None\<close> stands for a call of \<open>chunkText\<close> that does not return.
\<close>

definition addResume_try ::
  "ingest_env \<Rightarrow> jsstring \<Rightarrow> jsobject \<Rightarrow> store \<Rightarrow> ((cause + resume_data) \<times> store) option" where
  "addResume_try env content extra st =
     (if trim content = [] then Some (Inl Resume_content_cannot_be_empty, st)
      else
        (let cleanContent = trim (remove_controls content)
         in if cleanContent = [] then Some (Inl Resume_content_is_empty_after_cleaning, st)
            else
              (let limitedContent = extractResumeContent cleanContent;
                   parsedData = parsedData_of env limitedContent;
                   combined = combinedCmetadata env parsedData extra;
                   ident = generateId env
               in case chunkText (JSON_stringify env parsedData) 20000 150 of
                    None \<Rightarrow> None
                  | Some chunk_list \<Rightarrow>
                      (let chunkMetadata =
                             map (\<lambda>_. combined(js ''id'' \<mapsto> Str ident)) chunk_list
                       in case addVectors env chunk_list chunkMetadata st of
                            None \<Rightarrow> Some (Inl Store_error, st)
                          | Some st' \<Rightarrow>
                              Some (Inr \<lparr> resume_id = Str ident,
                                         document = JSON_stringify env parsedData,
                                         cmetadata = combined \<rparr>, st')))))"

text \<open>
  \<open>addResume\<close>: the \<open>catch\<close> of line 779 logs the error and throws
  \<open>Failed to add resume\<close> in its place.
\<close>

definition addResume ::
  "ingest_env \<Rightarrow> jsstring \<Rightarrow> jsobject \<Rightarrow> store \<Rightarrow> ((error + resume_data) \<times> store) option" where
  "addResume env content extra st =
     (case addResume_try env content extra st of
        None \<Rightarrow> None
      | Some (Inl c, st') \<Rightarrow> Some (Inl Failed_to_add_resume, st')
      | Some (Inr r, st') \<Rightarrow> Some (Inr r, st'))"

section \<open>The wording of the specification, for comparison\<close>

text \<open>
  \<open>clamp(x, lo, hi)\<close>, rounding to the nearest integer, and the rounded, clamped
  percentage of the scoring fallback. The formula is read in the arithmetic of the
  program: the product is the product of two doubles, rounded to the nearest double.
\<close>

definition clamp :: "number \<Rightarrow> number \<Rightarrow> number \<Rightarrow> number" where
  "clamp x lo hi = (if js_less x lo then lo else if js_less hi x then hi else x)"

definition round_number :: "number \<Rightarrow> number" where
  "round_number n = (case n of Num x \<Rightarrow> Num (of_int (round x)) | _ \<Rightarrow> n)"

definition rounded_clamped_percentage :: "number \<Rightarrow> number" where
  "rounded_clamped_percentage semanticScore =
     round_number (clamp (js_times semanticScore (Num 100)) (Num 0) (Num 100))"

text \<open>
  The integer-rounded mean of a list of confidences, 0 for the empty list. The mean is
  read in the arithmetic of the program: the sum adds the doubles from left to right,
  each partial sum and the quotient rounded to the nearest double.
\<close>

definition sum_numbers :: "number list \<Rightarrow> number" where
  "sum_numbers cs = foldl js_plus (Num 0) cs"

definition rounded_mean :: "number list \<Rightarrow> number" where
  "rounded_mean cs =
     (if cs = [] then Num 0
      else round_number (js_divide (sum_numbers cs) (Num (of_nat (length cs)))))"

text \<open>A criteria object in which every field that the enriched query uses is absent or empty.\<close>

definition absent_or_empty :: "'a list option \<Rightarrow> bool" where
  "absent_or_empty v = (v = None \<or> v = Some [])"

definition criteria_all_empty :: "search_criteria \<Rightarrow> bool" where
  "criteria_all_empty c =
     (absent_or_empty (Option.bind (c_position c) cp_title)
      \<and> Option.bind (c_position c) cp_seniority = None
      \<and> absent_or_empty (c_skills c)
      \<and> Option.bind (c_experience c) ce_minYears = None
      \<and> absent_or_empty (Option.bind (c_experience c) ce_companies)
      \<and> absent_or_empty (Option.bind (c_education c) ced_degree)
      \<and> absent_or_empty (Option.bind (c_education c) ced_field)
      \<and> absent_or_empty (c_location c)
      \<and> absent_or_empty (c_softSkills c))"

text \<open>The text \<open>p\<close> occurs in the text \<open>s\<close>.\<close>

fun occurs_in :: "'a list \<Rightarrow> 'a list \<Rightarrow> bool" where
  "occurs_in p [] = (p = [])"
| "occurs_in p (c # cs) = (strip_prefix p (c # cs) \<noteq> None \<or> occurs_in p cs)"

section \<open>A concrete run, for the instances below\<close>

definition demo_criteria :: search_criteria where
  "demo_criteria =
     \<lparr> c_position = Some \<lparr> cp_title = Some (js ''React developer''), cp_seniority = Some Senior \<rparr>,
       c_skills = Some [\<lparr> cs_name = js ''React'', cs_category = Some Framework,
                          cs_minSeniority = Some Advanced \<rparr>],
       c_experience = Some \<lparr> ce_minYears = Some (Num 5), ce_maxYears = None,
                              ce_companies = None, ce_industries = None \<rparr>,
       c_education = None, c_location = None, c_softSkills = None \<rparr>"

definition demo_analysis :: "number \<Rightarrow> match_analysis" where
  "demo_analysis p =
     \<lparr> percentage = p, explanation = js ''fits'',
       details = \<lparr> positionMatch = Some p, seniorityMatch = None, skillsMatch = None,
                   experienceMatch = None, educationMatch = None, locationMatch = None,
                   softSkillsMatch = None, keyStrengths = [], potentialConcerns = [] \<rparr> \<rparr>"

definition demo_hits :: "(document \<times> number) list" where
  "demo_hits =
     [ (\<lparr> pageContent = js ''A'', metadata = [js ''id'' \<mapsto> Str (js ''r1'')] \<rparr>, Num (7 / 8)),
       (\<lparr> pageContent = js ''B'', metadata = [js ''id'' \<mapsto> Str (js ''r2'')] \<rparr>, Num (1 / 16)),
       (\<lparr> pageContent = js ''C'', metadata = [js ''id'' \<mapsto> Str (js ''r3'')] \<rparr>, Num (1 / 2)) ]"

definition demo_env :: env where
  "demo_env =
     \<lparr> llm_criteria = (\<lambda>q. if q = [] then None else Some demo_criteria),
       llm_analysis = (\<lambda>pc resumeData q s.
          if resumeData = Str (js ''A'') then Some (demo_analysis (to_double (796 / 10)))
          else Some (demo_analysis (to_double (574 / 10)))),
       searchVectorsWithScore = (\<lambda>q k. Some demo_hits),
       table_rows = Some [],
       JSON_parse = (\<lambda>s. Some (Str s)),
       number_toString = (\<lambda>n. case n of Num x \<Rightarrow> digits_of (nat \<lfloor>x\<rfloor>) | _ \<Rightarrow> js ''NaN''),
       fallback_id = (\<lambda>i. js ''langchain-'' @ digits_of i) \<rparr>"

text \<open>The same run over hits of which one carries a numeric summary in its metadata.\<close>

definition numeric_hits :: "(document \<times> number) list" where
  "numeric_hits =
     [ (\<lparr> pageContent = js ''A'', metadata = [js ''id'' \<mapsto> Str (js ''r1'')] \<rparr>, Num (7 / 8)),
       (\<lparr> pageContent = js ''D'',
          metadata = [js ''id'' \<mapsto> Str (js ''r4''), js ''summary'' \<mapsto> Number (Num 7)] \<rparr>,
        Num (1 / 2)) ]"

definition numeric_env :: env where
  "numeric_env = demo_env \<lparr> searchVectorsWithScore := (\<lambda>q k. Some numeric_hits) \<rparr>"

definition demo_query :: jsstring where
  "demo_query = js ''senior React developer 5+ years''"

definition blank_criteria :: search_criteria where
  "blank_criteria =
     \<lparr> c_position = Some \<lparr> cp_title = Some [], cp_seniority = None \<rparr>,
       c_skills = Some [],
       c_experience = Some \<lparr> ce_minYears = None, ce_maxYears = Some (Num 3),
                              ce_companies = None, ce_industries = Some [js ''retail''] \<rparr>,
       c_education = None, c_location = None, c_softSkills = Some [] \<rparr>"

text \<open>
  A text of 300,000 units: three section keywords, each followed by a filler that no
  pattern matches, and one marker \<open>Z\<close> at offset 2010 of the education section.
\<close>

definition filler :: "nat \<Rightarrow> jsstring" where
  "filler n = concat (replicate n (js ''xy''))"

definition big_head :: jsstring where
  "big_head = js ''experience-'' @ filler 1500 @ js ''competencies-'' @ filler 1500
              @ js ''education-'' @ filler 1000"

definition big_resume :: jsstring where
  "big_resume = big_head @ js ''Z'' @ filler 145982 @ js ''.''"

text \<open>Units that the cleaning keeps and that are not the marker.\<close>

definition plain :: "code_unit \<Rightarrow> bool" where
  "plain u = (\<not> is_ws u \<and> printable u \<and> u \<noteq> cu CHR ''Z'')"

text \<open>A concrete ingestion: the parsing succeeds, the store accepts.\<close>

definition demo_parsed :: parsed_resume where
  "demo_parsed =
     \<lparr> personalInformation =
         \<lparr> pi_name = js ''Jane Doe'', pi_email = None, pi_phone = None, pi_address = None,
           pi_website = None, pi_linkedin = None, pi_position = None \<rparr>,
       experiences =
         [\<lparr> exp_title = js ''Engineer'', exp_company = js ''Acme'', exp_location = None,
            exp_startDate = js ''01/2020'', exp_endDate = None, exp_description = None,
            exp_achievements = None \<rparr>],
       education =
         [\<lparr> edu_degree = js ''Bachelor of Science'', edu_field = js ''Computer Science'',
            edu_institution = js ''MIT'', edu_location = None, edu_graduationDate = None,
            edu_gpa = None, edu_honors = None \<rparr>],
       softSkills = None, skills = None \<rparr>"

definition demo_ingest :: ingest_env where
  "demo_ingest =
     \<lparr> parseResume = (\<lambda>t. Some demo_parsed),
       generateId = js ''id-1'',
       toISOString_now = js ''2025-01-01T00:00:00.000Z'',
       JSON_stringify = (\<lambda>p. js ''{}''),
       store_accepts = (\<lambda>docs. True) \<rparr>"

definition empty_store :: store where
  "empty_store = \<lparr> documents = [], addDocuments_calls = 0 \<rparr>"

definition demo_content :: jsstring where
  "demo_content = js ''Jane Doe, engineer''"

definition demo_extra :: jsobject where
  "demo_extra = [js ''fileName'' \<mapsto> Str (js ''cv.pdf'')]"

definition scored_extra :: jsobject where
  "scored_extra = [js ''fileName'' \<mapsto> Str (js ''cv.pdf''),
                   js ''summary'' \<mapsto> Str (js ''Score: 0.9 - senior engineer'')]"

definition demo_record :: resume_data where
  "demo_record =
     \<lparr> resume_id = Str (js ''id-1''), document = js ''{}'',
       cmetadata = combinedCmetadata demo_ingest demo_parsed demo_extra \<rparr>"

definition demo_stored :: document where
  "demo_stored =
     \<lparr> pageContent = js ''{}'',
       metadata = (cmetadata demo_record)(js ''id'' \<mapsto> Str (js ''id-1'')) \<rparr>"

section \<open>Properties of the chunker\<close>

lemma chunk_step_start:
  "start (chunk_step text m ov st) = max (start st + 1) (chunk_end text m (start st) - ov)"
  by (simp add: chunk_step_def Let_def)

lemma chunk_step_nonempty:
  assumes "\<forall>c \<in> set (chunks st). c \<noteq> []"
  shows "\<forall>c \<in> set (chunks (chunk_step text m ov st)). c \<noteq> []"
  using assms by (simp add: chunk_step_def Let_def)

lemma chunk_loop_returns:
  "\<exists>r. chunk_loop text m ov st = Some r
       \<and> ((\<forall>c \<in> set (chunks st). c \<noteq> []) \<longrightarrow> (\<forall>c \<in> set r. c \<noteq> []))"
proof (induction "nat (int (length text) - start st)" arbitrary: st rule: less_induct)
  case less
  show ?case
  proof (cases "start st < int (length text)")
    case False
    then show ?thesis by (subst chunk_loop.simps) simp
  next
    case True
    let ?st' = "chunk_step text m ov st"
    have "start st + 1 \<le> start ?st'" by (simp add: chunk_step_start)
    with True have "nat (int (length text) - start ?st') < nat (int (length text) - start st)"
      by linarith
    from less [OF this] obtain r where
      r: "chunk_loop text m ov ?st' = Some r"
         "(\<forall>c \<in> set (chunks ?st'). c \<noteq> []) \<longrightarrow> (\<forall>c \<in> set r. c \<noteq> [])"
      by blast
    have "chunk_loop text m ov st = Some r"
      using True r(1) by (subst chunk_loop.simps) simp
    moreover have "(\<forall>c \<in> set (chunks st). c \<noteq> []) \<longrightarrow> (\<forall>c \<in> set r. c \<noteq> [])"
      using r(2) chunk_step_nonempty [of st "text" m ov] by blast
    ultimately show ?thesis by blast
  qed
qed

text \<open>
  C7 (as stated, refuted): the empty text is returned as the single element of the result,
  so an element of the result can be the empty string.
\<close>

theorem chunkText_empty_element:
  "chunkText [] 2000 200 = Some [[]] \<and> [] \<in> set (the (chunkText [] 2000 200))"
  by (simp add: chunkText_def)

text \<open>
  C7 (amended): for every non-empty text and all sizes, \<open>chunkText\<close> returns, and every
  element of the list it returns is a non-empty string.
\<close>

theorem chunkText_elements_nonempty:
  assumes "text \<noteq> []"
  shows "\<exists>cs. chunkText text maxChunkSize overlap = Some cs \<and> (\<forall>c \<in> set cs. c \<noteq> [])"
proof (cases "int (length text) \<le> maxChunkSize")
  case True
  with assms show ?thesis by (simp add: chunkText_def)
next
  case False
  obtain r where "chunk_loop text maxChunkSize overlap \<lparr> start = 0, chunks = [] \<rparr> = Some r"
    "\<forall>c \<in> set r. c \<noteq> []"
    using chunk_loop_returns [of "text" maxChunkSize overlap "\<lparr> start = 0, chunks = [] \<rparr>"]
    by auto
  with False assms show ?thesis by (simp add: chunkText_def)
qed

theorem chunkText_elements_nonempty_witness:
  "js ''One. Two? Three!'' \<noteq> []
   \<and> (\<exists>cs. chunkText (js ''One. Two? Three!'') 8 3 = Some cs \<and> (\<forall>c \<in> set cs. c \<noteq> []))"
  using chunkText_elements_nonempty [of "js ''One. Two? Three!''" 8 3]
  by (simp add: js_def)

text \<open>
  C8: \<open>chunkText\<close> terminates for every text, every \<open>maxChunkSize \<ge> 1\<close> and every
  \<open>overlap \<ge> 0\<close>, also when \<open>overlap \<ge> maxChunkSize\<close>: each iteration moves \<open>start\<close> to
  \<open>max(start + 1, end - overlap)\<close>, at least one position further.
\<close>

theorem chunkText_terminates:
  assumes "1 \<le> maxChunkSize" and "0 \<le> overlap"
  shows "(\<exists>cs. chunkText text maxChunkSize overlap = Some cs)
       \<and> (\<forall>st. start (chunk_step text maxChunkSize overlap st)
                 = max (start st + 1) (chunk_end text maxChunkSize (start st) - overlap)
               \<and> start st + 1 \<le> start (chunk_step text maxChunkSize overlap st))"
proof -
  have "\<exists>cs. chunkText text maxChunkSize overlap = Some cs"
    using chunk_loop_returns [of "text" maxChunkSize overlap "\<lparr> start = 0, chunks = [] \<rparr>"]
    by (auto simp: chunkText_def)
  then show ?thesis by (simp add: chunk_step_start)
qed

theorem chunkText_terminates_witness:
  "(1 :: int) \<le> 4 \<and> (0 :: int) \<le> 9
   \<and> (\<exists>cs. chunkText (js ''One. Two? Three!'') 4 9 = Some cs)
   \<and> 0 + 1 \<le> start (chunk_step (js ''One. Two? Three!'') 4 9 \<lparr> start = 0, chunks = [] \<rparr>)"
proof -
  have "(1 :: int) \<le> 4" and "(0 :: int) \<le> 9" by simp_all
  from chunkText_terminates [OF this, of "js ''One. Two? Three!''"]
  have "\<exists>cs. chunkText (js ''One. Two? Three!'') 4 9 = Some cs"
    and "\<forall>st. start st + 1 \<le> start (chunk_step (js ''One. Two? Three!'') 4 9 st)"
    by blast+
  from this(1) this(2) [rule_format, of "\<lparr> start = 0, chunks = [] \<rparr>"]
  show ?thesis by simp
qed

section \<open>Properties of the match scorer\<close>

lemma Math_round_round_number: "Math_round a = round_number a"
proof (cases a)
  case (Num x)
  have "round x = (if x - of_int \<lfloor>x\<rfloor> < 1 / 2 then \<lfloor>x\<rfloor> else \<lfloor>x\<rfloor> + 1)"
    unfolding round_def by (auto simp: floor_eq_iff) linarith+
  with Num show ?thesis by (simp add: Math_round_def round_number_def)
qed (simp_all add: Math_round_def round_number_def)

lemma Math_min_max_clamp:
  "Math_min (Num 100) (Math_max (Num 0) p) = clamp p (Num 0) (Num 100)"
  by (cases p) (auto simp: Math_min_def Math_max_def clamp_def js_less_def)

lemma fallback_percentage:
  "percentage (fallback_analysis s) = rounded_clamped_percentage s"
  by (simp add: fallback_analysis_def rounded_clamped_percentage_def Let_def
      Math_round_round_number Math_min_max_clamp)

text \<open>
  C1: when the structured scoring fails (the call throws, or its answer is outside the
  schema), the scorer returns the percentage \<open>round(clamp(semanticScore * 100, 0, 100))\<close>,
  the generic explanation, and details that hold \<open>keyStrengths\<close> and \<open>potentialConcerns\<close>
  and no category score, for every value of \<open>semanticScore\<close>: finite, infinite or
  \<open>NaN\<close> (which gives \<open>NaN\<close>). The product is the double product of the source.
\<close>

theorem scoring_fallback_exact:
  assumes "generateObject_analysis answer = None"
  shows "percentage (generateMatchAnalysis answer semanticScore)
           = rounded_clamped_percentage semanticScore
       \<and> explanation (generateMatchAnalysis answer semanticScore)
           = js ''Match based on semantic similarity to your search criteria.''
       \<and> details (generateMatchAnalysis answer semanticScore)
           = \<lparr> positionMatch = None, seniorityMatch = None, skillsMatch = None,
               experienceMatch = None, educationMatch = None, locationMatch = None,
               softSkillsMatch = None,
               keyStrengths = [js ''Semantic similarity to search query''],
               potentialConcerns = [js ''Detailed analysis unavailable''] \<rparr>"
  using assms fallback_percentage [of semanticScore]
  by (simp add: generateMatchAnalysis_def) (simp add: fallback_analysis_def Let_def)

theorem scoring_fallback_exact_witness:
  "generateObject_analysis None = None
   \<and> percentage (generateMatchAnalysis None (parseFloat (js ''0.015'')))
       = rounded_clamped_percentage (parseFloat (js ''0.015''))
   \<and> rounded_clamped_percentage (parseFloat (js ''0.015'')) = Num 2
   \<and> positionMatch (details (generateMatchAnalysis None (parseFloat (js ''0.015'')))) = None"
proof -
  have fails: "generateObject_analysis None = None"
    by (simp add: generateObject_analysis_def)
  have two: "rounded_clamped_percentage (parseFloat (js ''0.015'')) = Num 2"
    by code_simp
  from scoring_fallback_exact [OF fails, of "parseFloat (js ''0.015'')"] fails two
  show ?thesis by simp
qed

section \<open>Properties of the orchestrator\<close>

text \<open>The retriever keeps the order of the store: it only drops the hits at or below 0.1.\<close>

lemma filter_enumerate_snd:
  "map snd (filter (\<lambda>(i, x). P x) (enumerate n xs)) = filter P xs"
  by (induction xs arbitrary: n) auto

lemma semanticSearchResumes_store_order:
  assumes "trim q \<noteq> []" and "searchVectorsWithScore env q limit = Some hits"
  shows "\<exists>resumes. semanticSearchResumes env q limit = Inr resumes
           \<and> map document resumes
               = map (\<lambda>hit. pageContent (fst hit))
                   (filter (\<lambda>hit. js_greater (snd hit) threshold_0_1) hits)"
proof -
  let ?kept = "filter (\<lambda>(i, hit). js_greater (snd hit) threshold_0_1) (enumerate 0 hits)"
  have "map (\<lambda>p. document (case p of (i, hit) \<Rightarrow> hit_to_resume env i hit)) ?kept
          = map (\<lambda>hit. pageContent (fst hit)) (map snd ?kept)"
    by (auto simp: hit_to_resume_def split: prod.splits)
  also have "map snd ?kept = filter (\<lambda>hit. js_greater (snd hit) threshold_0_1) hits"
    by (rule filter_enumerate_snd)
  finally show ?thesis using assms by (simp add: semanticSearchResumes_def comp_def)
qed

lemma settle_covering:
  assumes "length slots = length outcomes"
    and "\<forall>i < length outcomes. slots ! i = None \<or> outcomes ! i = Inr (the (slots ! i))"
    and "\<forall>i < length outcomes. slots ! i = None \<longrightarrow> i \<in> set order"
  shows "\<exists>res. settle order outcomes slots = Some res
           \<and> (case res of Inl e \<Rightarrow> Inl e \<in> set outcomes | Inr vs \<Rightarrow> outcomes = map Inr vs)"
  using assms
proof (induction order arbitrary: slots)
  case Nil
  then have filled: "\<forall>i < length outcomes. slots ! i \<noteq> None" by simp
  with Nil(1) have all: "list_all (\<lambda>v. v \<noteq> None) slots"
    by (simp add: list_all_length)
  have "outcomes = map Inr (map the slots)"
    using Nil(1,2) filled by (intro nth_equalityI) auto
  with all show ?case by simp
next
  case (Cons i order)
  show ?case
  proof (cases "i < length outcomes")
    case False
    have "\<forall>j < length outcomes. slots ! j = None \<longrightarrow> j \<in> set order"
      using Cons.prems(3) False by auto
    from Cons.IH [OF Cons.prems(1,2) this] False show ?thesis by simp
  next
    case True
    show ?thesis
    proof (cases "outcomes ! i")
      case (Inl e)
      with True have "Inl e \<in> set outcomes" by (metis nth_mem)
      with True Inl show ?thesis by simp
    next
      case (Inr v)
      let ?slots = "slots[i := Some v]"
      have 1: "length ?slots = length outcomes" using Cons.prems(1) by simp
      have 2: "\<forall>j < length outcomes. ?slots ! j = None \<or> outcomes ! j = Inr (the (?slots ! j))"
      proof (intro allI impI)
        fix j assume j: "j < length outcomes"
        show "?slots ! j = None \<or> outcomes ! j = Inr (the (?slots ! j))"
        proof (cases "j = i")
          case True
          with j Cons.prems(1) Inr show ?thesis by simp
        next
          case False
          with j Cons.prems(2) show ?thesis by simp
        qed
      qed
      have 3: "\<forall>j < length outcomes. ?slots ! j = None \<longrightarrow> j \<in> set order"
      proof (intro allI impI)
        fix j assume j: "j < length outcomes" "?slots ! j = None"
        with Cons.prems(1) have "j \<noteq> i" by auto
        with j Cons.prems(3) show "j \<in> set order" by auto
      qed
      from Cons.IH [OF 1 2 3] True Inr show ?thesis by simp
    qed
  qed
qed

lemma Promise_all_covering:
  assumes "{0..<length outcomes} \<subseteq> set order"
  shows "\<exists>res. Promise_all order outcomes = Some res
           \<and> (case res of Inl e \<Rightarrow> Inl e \<in> set outcomes | Inr vs \<Rightarrow> outcomes = map Inr vs)"
  unfolding Promise_all_def
  using assms by (intro settle_covering) auto

lemma score_candidate_readable:
  assumes "summary_readable (get_prop (cmetadata resume) ''summary'')"
  shows "\<exists>c. score_candidate env pc q resume = Inr c
           \<and> sc_id c = resume_id resume
           \<and> sc_content c = substring (document resume) 0 500 @ js ''...''"
  using assms
  by (cases "get_prop (cmetadata resume) ''summary''")
     (simp_all add: score_candidate_def summary_match_def summary_readable_def Let_def)

lemma score_candidate_unreadable:
  assumes "\<not> summary_readable (get_prop (cmetadata resume) ''summary'')"
  shows "score_candidate env pc q resume = Inl TypeError"
  using assms
  by (cases "get_prop (cmetadata resume) ''summary''")
     (simp_all add: score_candidate_def summary_match_def summary_readable_def)

lemma retrieve_and_score_order:
  assumes "semanticSearchResumes env searchQuery limit = Inr resumes"
    and "set order = {0..<length resumes}"
  shows "if \<forall>resume \<in> set resumes. summary_readable (get_prop (cmetadata resume) ''summary'')
         then \<exists>r. retrieve_and_score env order query searchQuery pc limit = Some (Inr r)
                \<and> length (candidates r) = length resumes
                \<and> (\<forall>i < length resumes.
                      score_candidate env pc query (resumes ! i) = Inr (candidates r ! i)
                      \<and> sc_id (candidates r ! i) = resume_id (resumes ! i)
                      \<and> sc_content (candidates r ! i)
                          = substring (document (resumes ! i)) 0 500 @ js ''...'')
         else retrieve_and_score env order query searchQuery pc limit = Some (Inl TypeError)"
proof -
  let ?outcomes = "map (score_candidate env pc query) resumes"
  have "{0..<length ?outcomes} \<subseteq> set order" using assms(2) by simp
  from Promise_all_covering [OF this] obtain res where
    res: "Promise_all order ?outcomes = Some res"
      "case res of Inl e \<Rightarrow> Inl e \<in> set ?outcomes | Inr vs \<Rightarrow> ?outcomes = map Inr vs"
    by blast
  show ?thesis
  proof (cases "\<forall>resume \<in> set resumes.
                  summary_readable (get_prop (cmetadata resume) ''summary'')")
    case True
    have no_error: "Inl e \<notin> set ?outcomes" for e
    proof
      assume "Inl e \<in> set ?outcomes"
      then obtain resume where "resume \<in> set resumes"
        and "score_candidate env pc query resume = Inl e" by auto
      with True score_candidate_readable [of resume env pc query] show False by auto
    qed
    with res(2) obtain vs where vs: "res = Inr vs" "?outcomes = map Inr vs"
      by (cases res) auto
    from vs(2) have len: "length vs = length resumes" by (metis length_map)
    have each: "\<forall>i < length resumes.
            score_candidate env pc query (resumes ! i) = Inr (vs ! i)
            \<and> sc_id (vs ! i) = resume_id (resumes ! i)
            \<and> sc_content (vs ! i) = substring (document (resumes ! i)) 0 500 @ js ''...''"
    proof (intro allI impI)
      fix i assume i: "i < length resumes"
      with vs(2) len have eq: "score_candidate env pc query (resumes ! i) = Inr (vs ! i)"
        by (metis nth_map)
      from i True have "summary_readable (get_prop (cmetadata (resumes ! i)) ''summary'')"
        by simp
      from score_candidate_readable [OF this, of env pc query] eq
      show "score_candidate env pc query (resumes ! i) = Inr (vs ! i)
            \<and> sc_id (vs ! i) = resume_id (resumes ! i)
            \<and> sc_content (vs ! i) = substring (document (resumes ! i)) 0 500 @ js ''...''"
        by auto
    qed
    with True vs(1) res(1) assms(1) len show ?thesis
      by (simp add: retrieve_and_score_def)
  next
    case False
    then obtain resume where bad: "resume \<in> set resumes"
      "\<not> summary_readable (get_prop (cmetadata resume) ''summary'')" by blast
    then have "Inl TypeError \<in> set ?outcomes"
      using score_candidate_unreadable [of resume env pc query] by force
    moreover have "Inl TypeError \<notin> set (map Inr vs)" for vs :: "scored_candidate list"
      by auto
    ultimately have "?outcomes \<noteq> map Inr vs" for vs by metis
    with res(2) obtain e where e: "res = Inl e" "Inl e \<in> set ?outcomes"
      by (cases res) auto
    then obtain resume' where "score_candidate env pc query resume' = Inl e" by auto
    then have "e = TypeError"
      using score_candidate_readable [of resume' env pc query]
        score_candidate_unreadable [of resume' env pc query]
      by (cases "summary_readable (get_prop (cmetadata resume') ''summary'')") auto
    with False e(1) res(1) assms(1) show ?thesis
      by (simp add: retrieve_and_score_def)
  qed
qed

text \<open>
  C3: in every search whose retrieval succeeds, whatever the order in which the scoring
  tasks complete: when every retrieved summary is a string or is missing, the search is
  fulfilled and the array \<open>candidates\<close> follows the retrieved resumes index by index,
  \<open>candidates[i]\<close> being the record scored from the \<open>i\<close>-th resume, with its id and the
  first 500 units of its document; otherwise (a summary on which \<open>match\<close> throws) the
  search is rejected with the type error.
\<close>

theorem candidates_keep_retrieval_order:
  assumes "semanticSearchResumes env
             (searchQuery_of (number_toString env) query
                (parsedCriteria_of env query useStructuredSearch)) limit = Inr resumes"
    and "set order = {0..<length resumes}"
  shows "if \<forall>resume \<in> set resumes. summary_readable (get_prop (cmetadata resume) ''summary'')
         then \<exists>r. execute env order query limit useStructuredSearch = Some (Inr r)
                \<and> length (candidates r) = length resumes
                \<and> (\<forall>i < length resumes.
                      score_candidate env (parsedCriteria_of env query useStructuredSearch)
                          query (resumes ! i) = Inr (candidates r ! i)
                      \<and> sc_id (candidates r ! i) = resume_id (resumes ! i)
                      \<and> sc_content (candidates r ! i)
                          = substring (document (resumes ! i)) 0 500 @ js ''...'')
         else execute env order query limit useStructuredSearch = Some (Inl TypeError)"
  using retrieve_and_score_order [OF assms] by (simp add: execute_def Let_def)


lemma retrieve_and_score_Inr:
  assumes "retrieve_and_score env order query searchQuery pc limit = Some (Inr r)"
  shows "averageConfidence r = avgConfidence (candidates r) \<and> sr_query r = searchQuery"
proof (cases "semanticSearchResumes env searchQuery limit")
  case (Inl e)
  with assms show ?thesis by (simp add: retrieve_and_score_def)
next
  case (Inr resumes)
  show ?thesis
  proof (cases "Promise_all order (map (score_candidate env pc query) resumes)")
    case None
    with Inr assms show ?thesis by (simp add: retrieve_and_score_def)
  next
    case (Some res)
    show ?thesis
    proof (cases res)
      case (Inl e)
      with Some Inr assms show ?thesis by (simp add: retrieve_and_score_def)
    next
      case (Inr rs)
      with Some \<open>semanticSearchResumes env searchQuery limit = Inr resumes\<close> assms
      have "r = \<lparr> totalResults = length rs, averageConfidence = avgConfidence rs,
                  sr_query = searchQuery, sr_originalQuery = query, sr_parsedCriteria = pc,
                  candidates = rs \<rparr>"
        by (simp add: retrieve_and_score_def)
      then show ?thesis by simp
    qed
  qed
qed


lemma enhancedQueryParts_empty:
  assumes "criteria_all_empty c"
  shows "enhancedQueryParts toString c = []"
proof -
  have txt1: "present_text v = None" if "absent_or_empty v" for v
    using that by (auto simp: absent_or_empty_def present_text_def)
  have lst1: "present_list v = None" if "absent_or_empty v" for v :: "'a list option"
    using that by (auto simp: absent_or_empty_def present_list_def)
  from assms show ?thesis
    by (simp add: criteria_all_empty_def enhancedQueryParts_def txt1 lst1 present_number_def)
qed

text \<open>
  C5: if the criteria parsing returns \<open>null\<close>, or criteria in which every field that
  the enriched query uses is absent or empty, then retrieval is called with the raw query,
  and the raw query is the \<open>query\<close> of the result.
\<close>

theorem empty_criteria_keep_raw_query:
  assumes "parseSearchQuery env query = None
           \<or> (\<exists>c. parseSearchQuery env query = Some c \<and> criteria_all_empty c)"
  shows "searchQuery_of (number_toString env) query
           (parsedCriteria_of env query useStructuredSearch) = query
       \<and> execute env order query limit useStructuredSearch
           = retrieve_and_score env order query query
               (parsedCriteria_of env query useStructuredSearch) limit
       \<and> (\<forall>r. execute env order query limit useStructuredSearch = Some (Inr r)
               \<longrightarrow> sr_query r = query)"
proof -
  have sq: "searchQuery_of (number_toString env) query
          (parsedCriteria_of env query useStructuredSearch) = query"
    using assms
    by (auto simp: searchQuery_of_def parsedCriteria_of_def enhancedQueryParts_empty)
  then have eq: "execute env order query limit useStructuredSearch
           = retrieve_and_score env order query query
               (parsedCriteria_of env query useStructuredSearch) limit"
    by (simp add: execute_def Let_def)
  moreover have "sr_query r = query"
    if "execute env order query limit useStructuredSearch = Some (Inr r)" for r
    using that retrieve_and_score_Inr unfolding eq by blast
  ultimately show ?thesis using sq by blast
qed

section \<open>Properties of the section-aware extraction\<close>

lemma length_trim_le: "length (trim s) \<le> length s"
proof -
  have "length (dropWhile is_ws (rev (dropWhile is_ws s))) \<le> length (rev (dropWhile is_ws s))"
    by (rule length_dropWhile_le)
  also have "\<dots> \<le> length s" by (simp add: length_dropWhile_le)
  finally show ?thesis by (simp add: trim_def)
qed

lemma substring_0: "0 \<le> n \<Longrightarrow> substring s 0 n = take (nat n) s"
  by (auto simp: substring_def Let_def min_def max_def)

lemma length_substring_0: "0 \<le> n \<Longrightarrow> length (substring s 0 n) \<le> nat n"
  by (simp add: substring_0)

lemma length_substring_le:
  assumes "0 \<le> n"
  shows "length (substring s a (min (a + n) (int (length s)))) \<le> nat n"
  using assms by (auto simp: substring_def Let_def min_def max_def)

lemma length_extractSection: "0 \<le> n \<Longrightarrow> length (extractSection c st n) \<le> nat n"
  unfolding extractSection_def
  by (rule order_trans [OF length_trim_le]) (rule length_substring_le)

lemma length_first_pattern_section:
  assumes "first_pattern_section ps c n = Some sec" and "0 \<le> n"
  shows "length sec \<le> nat n"
  using assms
  by (induction ps) (auto simp: Let_def length_extractSection split: if_splits)

lemma length_extractExperienceSection: "length (extractExperienceSection c) \<le> 4000"
  using length_first_pattern_section [of experiencePatterns c 4000]
    length_extractSection [of 4000 c]
  by (auto simp: extractExperienceSection_def Let_def split: option.splits)

lemma length_extractEducationSection: "length (extractEducationSection c) \<le> 3000"
  using length_first_pattern_section [of educationPatterns c 3000]
  by (auto simp: extractEducationSection_def split: option.splits)

lemma length_extractSkillsSection: "length (extractSkillsSection c) \<le> 3000"
  using length_first_pattern_section [of skillsPatterns c 3000]
  by (auto simp: extractSkillsSection_def split: option.splits)

lemma join_append:
  "xs \<noteq> [] \<Longrightarrow> ys \<noteq> [] \<Longrightarrow> join sep (xs @ ys) = join sep xs @ sep @ join sep ys"
proof (induction sep xs rule: join.induct)
  case (2 sep x)
  then show ?case by (cases ys) simp_all
qed simp_all

lemma length_join_pair: "length (join sep [h, b]) = length h + length sep + length b"
  by simp

lemma length_join_append_le:
  "length (join sep (xs @ ys)) \<le> length (join sep xs) + length sep + length (join sep ys)"
proof (cases "xs = [] \<or> ys = []")
  case True
  then show ?thesis by auto
next
  case False
  then show ?thesis by (simp add: join_append)
qed

lemma length_sections_of: "length (join nl2 (sections_of c)) \<le> 8096"
proof -
  let ?p = "extractSection c 0 1000"
  let ?e = "substring (extractExperienceSection c) 0 5000"
  let ?d = "substring (extractEducationSection c) 0 1500"
  let ?s = "substring (extractSkillsSection c) 0 1500"
  let ?P = "if ?p \<noteq> [] then [js ''=== PERSONAL INFORMATION ==='', ?p] else []"
  let ?E = "if extractExperienceSection c \<noteq> [] then [js ''=== WORK EXPERIENCE ==='', ?e] else []"
  let ?D = "if extractEducationSection c \<noteq> [] then [js ''=== EDUCATION ==='', ?d] else []"
  let ?S = "if extractSkillsSection c \<noteq> [] then [js ''=== SKILLS ==='', ?s] else []"
  have p: "length ?p \<le> 1000" using length_extractSection [of 1000 c 0] by simp
  have e: "length ?e \<le> 4000"
    using length_extractExperienceSection [of c] by (simp add: substring_0)
  have d: "length ?d \<le> 1500" by (simp add: substring_0)
  have s: "length ?s \<le> 1500" by (simp add: substring_0)
  have P: "length (join nl2 ?P) \<le> 1030" using p by (simp add: nl2_def js_def)
  have E: "length (join nl2 ?E) \<le> 4025" using e by (simp add: nl2_def js_def)
  have D: "length (join nl2 ?D) \<le> 1519" using d by (simp add: nl2_def js_def)
  have S: "length (join nl2 ?S) \<le> 1516" using s by (simp add: nl2_def js_def)
  have sec: "sections_of c = ?P @ ?E @ ?D @ ?S"
    by (simp add: sections_of_def Let_def)
  have "length (join nl2 (?D @ ?S)) \<le> 1519 + 2 + 1516"
    using length_join_append_le [of nl2 ?D ?S] D S by (simp add: nl2_def)
  then have "length (join nl2 (?E @ ?D @ ?S)) \<le> 4025 + 2 + (1519 + 2 + 1516)"
    using length_join_append_le [of nl2 ?E "?D @ ?S"] E by (simp add: nl2_def)
  then have "length (join nl2 (?P @ ?E @ ?D @ ?S)) \<le> 1030 + 2 + (4025 + 2 + (1519 + 2 + 1516))"
    using length_join_append_le [of nl2 ?P "?E @ ?D @ ?S"] P by (simp add: nl2_def)
  then show ?thesis unfolding sec by simp
qed

lemma sectionAwareExtraction_join:
  "sectionAwareExtraction c = join nl2 (sections_of c)"
  using length_sections_of [of c] by (simp add: sectionAwareExtraction_def Let_def maxChars_def)

lemma length_sectionAwareExtraction: "length (sectionAwareExtraction c) \<le> maxChars"
  using length_sections_of [of c] by (simp add: sectionAwareExtraction_join maxChars_def)

text \<open>
  C10: for every input, the output of \<open>extractResumeContent\<close> has at most 160,000
  units; and an input above the ceiling (a text of 300,000 units, say) is never returned
  as it is: it is cleaned, and reduced to its sections when the cleaned text is still
  above the ceiling.
\<close>

theorem extractResumeContent_within_ceiling:
  "length (extractResumeContent content) \<le> 160000
   \<and> (160000 < length content \<longrightarrow>
        extractResumeContent content
          = (if 160000 < length (cleanup content) then sectionAwareExtraction (cleanup content)
             else cleanup content))"
  using length_sectionAwareExtraction [of "cleanup content"]
  by (simp add: extractResumeContent_def Let_def maxChars_def)

lemma sections_contain:
  assumes "sec \<noteq> []"
  shows "\<exists>pre post. join nl2 (A @ [h, sec] @ B) = pre @ h @ nl2 @ sec @ post"
proof -
  have mid: "join nl2 ([h, sec] @ B) = h @ nl2 @ sec @ (if B = [] then [] else nl2 @ join nl2 B)"
    by (cases B) simp_all
  show ?thesis
  proof (cases "A = []")
    case True
    with mid have "join nl2 (A @ [h, sec] @ B) = [] @ h @ nl2 @ sec @ (if B = [] then [] else nl2 @ join nl2 B)"
      by simp
    then show ?thesis by blast
  next
    case False
    then have "join nl2 (A @ ([h, sec] @ B)) = join nl2 A @ nl2 @ join nl2 ([h, sec] @ B)"
      by (intro join_append) simp_all
    with mid have "join nl2 (A @ [h, sec] @ B)
        = (join nl2 A @ nl2) @ h @ nl2 @ sec @ (if B = [] then [] else nl2 @ join nl2 B)"
      by simp
    then show ?thesis by blast
  qed
qed

text \<open>
  C6 (amended): during section-aware extraction the located education section and the
  located skills section (each at most 3,000 units long) are included in the reduced
  content up to a cap of 1,500 units: the output is the join of the sections, and it
  holds, after the header, the first 1,500 units of each located section.
\<close>

theorem sections_included_up_to_1500:
  assumes "maxChars < length content" and "maxChars < length (cleanup content)"
  shows "extractResumeContent content = join nl2 (sections_of (cleanup content))
    \<and> length (extractEducationSection (cleanup content)) \<le> 3000
    \<and> length (extractSkillsSection (cleanup content)) \<le> 3000
    \<and> (extractEducationSection (cleanup content) \<noteq> [] \<longrightarrow>
         (\<exists>pre post. extractResumeContent content
            = pre @ js ''=== EDUCATION ==='' @ nl2
              @ take 1500 (extractEducationSection (cleanup content)) @ post))
    \<and> (extractSkillsSection (cleanup content) \<noteq> [] \<longrightarrow>
         (\<exists>pre post. extractResumeContent content
            = pre @ js ''=== SKILLS ==='' @ nl2
              @ take 1500 (extractSkillsSection (cleanup content)) @ post))"
proof -
  let ?c = "cleanup content"
  have out: "extractResumeContent content = join nl2 (sections_of ?c)"
    using assms by (simp add: extractResumeContent_def Let_def sectionAwareExtraction_join)
  let ?p = "extractSection ?c 0 1000"
  let ?P = "if ?p \<noteq> [] then [js ''=== PERSONAL INFORMATION ==='', ?p] else []"
  let ?E = "if extractExperienceSection ?c \<noteq> []
            then [js ''=== WORK EXPERIENCE ==='', substring (extractExperienceSection ?c) 0 5000]
            else []"
  let ?S = "if extractSkillsSection ?c \<noteq> []
            then [js ''=== SKILLS ==='', substring (extractSkillsSection ?c) 0 1500] else []"
  let ?D = "if extractEducationSection ?c \<noteq> []
            then [js ''=== EDUCATION ==='', substring (extractEducationSection ?c) 0 1500] else []"
  have edu: "\<exists>pre post. extractResumeContent content
            = pre @ js ''=== EDUCATION ==='' @ nl2 @ take 1500 (extractEducationSection ?c) @ post"
    if ne: "extractEducationSection ?c \<noteq> []"
  proof -
    have "sections_of ?c = (?P @ ?E) @ [js ''=== EDUCATION ==='',
             take 1500 (extractEducationSection ?c)] @ ?S"
      using ne by (simp add: sections_of_def Let_def substring_0)
    moreover have "take 1500 (extractEducationSection ?c) \<noteq> []" using ne by simp
    ultimately show ?thesis unfolding out using sections_contain by metis
  qed
  have ski: "\<exists>pre post. extractResumeContent content
            = pre @ js ''=== SKILLS ==='' @ nl2 @ take 1500 (extractSkillsSection ?c) @ post"
    if ne: "extractSkillsSection ?c \<noteq> []"
  proof -
    have "sections_of ?c = (?P @ ?E @ ?D) @ [js ''=== SKILLS ==='',
             take 1500 (extractSkillsSection ?c)] @ []"
      using ne by (simp add: sections_of_def Let_def substring_0)
    moreover have "take 1500 (extractSkillsSection ?c) \<noteq> []" using ne by simp
    ultimately show ?thesis unfolding out using sections_contain by metis
  qed
  from out edu ski length_extractEducationSection [of ?c] length_extractSkillsSection [of ?c]
  show ?thesis by blast
qed

section \<open>Properties of the ingestion\<close>

text \<open>
  C9: for every content that is empty or white space only, or that is so after the
  control characters are removed, \<open>addResume\<close> fails on the validation error (logged,
  and thrown on as \<open>Failed to add resume\<close>) and the store is returned as it was: no
  document is added and \<open>addDocuments\<close> is not called.
\<close>

theorem blank_content_rejected_before_store:
  assumes "trim content = [] \<or> trim (remove_controls content) = []"
  shows "addResume env content extra st = Some (Inl Failed_to_add_resume, st)
       \<and> (addResume_try env content extra st = Some (Inl Resume_content_cannot_be_empty, st)
          \<or> addResume_try env content extra st
              = Some (Inl Resume_content_is_empty_after_cleaning, st))"
  using assms by (auto simp: addResume_def addResume_try_def Let_def)

lemma enumerate_same_metadata:
  "map (\<lambda>(index, chunk).
          \<lparr> pageContent = chunk,
            metadata = (if index < length (map (\<lambda>_. m) cs) then map (\<lambda>_. m) cs ! index
                        else Map.empty) \<rparr>)
     (enumerate 0 cs)
   = map (\<lambda>chunk. \<lparr> pageContent = chunk, metadata = m \<rparr>) cs"
  by (rule nth_equalityI) (simp_all add: nth_enumerate_eq)

lemma addResume_try_stores:
  assumes "addResume_try env content extra st = Some (Inr r, st')"
  shows "\<exists>chunk_list.
           cmetadata r = combinedCmetadata env
               (parsedData_of env (extractResumeContent (trim (remove_controls content)))) extra
         \<and> documents st' = documents st
             @ map (\<lambda>chunk. \<lparr> pageContent = chunk,
                               metadata = (cmetadata r)(js ''id'' \<mapsto> resume_id r) \<rparr>) chunk_list"
  using assms
  unfolding addResume_try_def Let_def addVectors_def enumerate_same_metadata
  by (auto split: if_splits option.splits)

lemma addResume_Inr:
  assumes "addResume env content extra st = Some (Inr r, st')"
  shows "addResume_try env content extra st = Some (Inr r, st')"
  using assms by (auto simp: addResume_def split: option.splits sum.splits)

lemma key_eval: "js ''summary'' \<noteq> js ''uploadedAt''" "js ''summary'' \<noteq> js ''id''"
  "js ''summary'' \<noteq> js ''personalInformation''" "js ''summary'' \<noteq> js ''experiences''"
  "js ''summary'' \<noteq> js ''education''" "js ''summary'' \<noteq> js ''softSkills''"
  "js ''summary'' \<noteq> js ''skills''"
  by (simp_all add: js_def cu_def)

lemma parsedData_properties_summary: "parsedData_properties p (js ''summary'') = None"
  by (simp add: parsedData_properties_def opt_entry_def key_eval map_add_def
      split: option.splits)

lemma combinedCmetadata_summary:
  "combinedCmetadata env p extra (js ''summary'')
     = (case extra (js ''summary'') of
          None \<Rightarrow> Some (Str (generated_summary p)) | Some v \<Rightarrow> Some v)"
  by (simp add: combinedCmetadata_def map_add_def key_eval parsedData_properties_summary
      split: option.splits)

lemma hit_to_resume_summary:
  assumes "metadata doc (js ''summary'') = Some v"
  shows "hit_to_resume senv i (doc, score) = hit_to_resume senv i (doc, score')"
    and "get_prop (cmetadata (hit_to_resume senv i (doc, score))) ''summary'' = v"
proof -
  have "[ js ''name'' \<mapsto> a, js ''fileName'' \<mapsto> b, js ''title'' \<mapsto> c, js ''summary'' \<mapsto> x ]
          ++ metadata doc
        = [ js ''name'' \<mapsto> a, js ''fileName'' \<mapsto> b, js ''title'' \<mapsto> c, js ''summary'' \<mapsto> y ]
          ++ metadata doc" for a b c x y
    using assms by (auto simp: map_add_def fun_eq_iff split: option.splits)
  then show "hit_to_resume senv i (doc, score) = hit_to_resume senv i (doc, score')"
    by (simp add: hit_to_resume_def)
  show "get_prop (cmetadata (hit_to_resume senv i (doc, score))) ''summary'' = v"
    using assms by (simp add: hit_to_resume_def get_prop_def map_add_def)
qed

lemma score_candidate_no_match:
  assumes "get_prop (cmetadata resume) ''summary'' = Str s" and "match_Score s = None"
  shows "\<exists>c. score_candidate senv pc q resume = Inr c \<and> sc_rawScore c = Num 0"
  using assms by (simp add: score_candidate_def summary_match_def Let_def)

lemma match_Score_skip:
  assumes "cu CHR ''S'' \<notin> set a"
  shows "match_Score (a @ b) = match_Score b"
  using assms by (induction a) (auto simp: js_def)

lemma digits_of_no_S: "cu CHR ''S'' \<notin> set (digits_of n)"
proof (induction n rule: digits_of.induct)
  case (1 n)
  have d: "(of_nat (48 + k) :: code_unit) \<noteq> cu CHR ''S''" if "k < 10" for k
  proof -
    from that have "k \<in> {0, 1, 2, 3, 4, 5, 6, 7, 8, 9}" by auto
    then show ?thesis by (auto simp: cu_def)
  qed
  show ?case
  proof (cases "n < 10")
    case True
    with d [of n] show ?thesis by (subst digits_of.simps) auto
  next
    case False
    with 1 d [of "n mod 10"] show ?thesis by (subst digits_of.simps) auto
  qed
qed

lemma strip_prefix_append:
  assumes "strip_prefix p (a @ b) = Some r"
  shows "strip_prefix p a \<noteq> None \<or> (length a < length p \<and> b \<noteq> [] \<and> hd b = p ! length a)"
  using assms
proof (induction p arbitrary: a)
  case Nil
  then show ?case by simp
next
  case (Cons x ps)
  show ?case
  proof (cases a)
    case Nil
    with Cons.prems show ?thesis by (cases b) (auto split: if_splits)
  next
    case (Cons y a')
    with Cons.prems have "x = y" and "strip_prefix ps (a' @ b) = Some r"
      by (auto split: if_splits)
    with Cons.IH [of a'] Cons show ?thesis by auto
  qed
qed

lemma strip_prefix_shorter:
  assumes "strip_prefix (p @ q) s = Some r"
  shows "strip_prefix p s \<noteq> None"
  using assms
proof (induction p arbitrary: s)
  case Nil
  then show ?case by simp
next
  case (Cons x ps)
  then show ?case by (cases s) (auto split: if_splits)
qed

lemma Score_colon_nth:
  assumes "0 < k" and "k < 6"
  shows "js ''Score:'' ! k \<in> {cu CHR ''c'', cu CHR ''o'', cu CHR ''r'', cu CHR ''e'', cu CHR '':''}"
proof -
  from assms have "k \<in> {1, 2, 3, 4, 5}" by auto
  then show ?thesis by (auto simp: js_def)
qed

lemma match_Score_append:
  assumes "\<not> occurs_in (js ''Score:'') a"
    and "b = [] \<or> hd b \<notin> {cu CHR ''c'', cu CHR ''o'', cu CHR ''r'', cu CHR ''e'', cu CHR '':''}"
  shows "match_Score (a @ b) = match_Score b"
  using assms(1)
proof (induction a)
  case Nil
  then show ?case by simp
next
  case (Cons x a')
  then have no6: "strip_prefix (js ''Score:'') (x # a') = None" and rest: "\<not> occurs_in (js ''Score:'') a'"
    by auto
  have "strip_prefix (js ''Score: '') ((x # a') @ b) = None"
  proof (rule ccontr)
    assume "strip_prefix (js ''Score: '') ((x # a') @ b) \<noteq> None"
    then obtain r where "strip_prefix (js ''Score:'' @ js '' '') ((x # a') @ b) = Some r"
      by (auto simp: js_def)
    then have "strip_prefix (js ''Score:'') ((x # a') @ b) \<noteq> None"
      by (rule strip_prefix_shorter)
    then obtain r' where "strip_prefix (js ''Score:'') ((x # a') @ b) = Some r'" by auto
    from strip_prefix_append [OF this] no6
    have "length (x # a') < length (js ''Score:'')" "b \<noteq> []"
      "hd b = js ''Score:'' ! length (x # a')" by auto
    moreover have "length (js ''Score:'') = 6" by (simp add: js_def)
    ultimately have "hd b \<in> {cu CHR ''c'', cu CHR ''o'', cu CHR ''r'', cu CHR ''e'', cu CHR '':''}"
      using Score_colon_nth [of "length (x # a')"] by simp
    with assms(2) \<open>b \<noteq> []\<close> show False by simp
  qed
  with Cons.IH [OF rest] show ?case by simp
qed

lemma degrees_no_match:
  assumes "\<forall>e \<in> set es. \<not> occurs_in (js ''Score:'') (edu_degree e)
                       \<and> \<not> occurs_in (js ''Score:'') (edu_field e)"
  shows "match_Score (join (js '', '')
           (map (\<lambda>edu. edu_degree edu @ js '' in '' @ edu_field edu) es)) = None"
  using assms
proof (induction es rule: induct_list012)
  case 1
  then show ?case by simp
next
  case (2 e)
  have "match_Score (edu_degree e @ (js '' in '' @ edu_field e))
          = match_Score (js '' in '' @ edu_field e)"
    using 2 by (intro match_Score_append) (simp_all add: js_def cu_def)
  also have "\<dots> = match_Score (edu_field e)"
    by (rule match_Score_skip) (simp add: js_def cu_def)
  also have "\<dots> = match_Score (edu_field e @ [])" by simp
  also have "\<dots> = match_Score []"
    using 2 by (intro match_Score_append) simp_all
  finally show ?case by simp
next
  case (3 e e' es)
  let ?rest = "join (js '', '')
           (map (\<lambda>edu. edu_degree edu @ js '' in '' @ edu_field edu) (e' # es))"
  have "match_Score (edu_degree e @ (js '' in '' @ edu_field e @ js '', '' @ ?rest))
          = match_Score (js '' in '' @ edu_field e @ js '', '' @ ?rest)"
    using 3(3) by (intro match_Score_append) (simp_all add: js_def cu_def)
  also have "\<dots> = match_Score (edu_field e @ (js '', '' @ ?rest))"
    using match_Score_skip [of "js '' in ''"] by (simp add: js_def cu_def)
  also have "\<dots> = match_Score (js '', '' @ ?rest)"
    using 3(3) by (intro match_Score_append) (simp_all add: js_def cu_def)
  also have "\<dots> = match_Score ?rest"
    by (rule match_Score_skip) (simp add: js_def cu_def)
  also have "\<dots> = None" using 3 by simp
  finally show ?case by simp
qed

lemma generated_summary_no_match:
  assumes "\<forall>e \<in> set (education p). \<not> occurs_in (js ''Score:'') (edu_degree e)
                       \<and> \<not> occurs_in (js ''Score:'') (edu_field e)"
  shows "match_Score (generated_summary p) = None"
proof -
  let ?degrees = "join (js '', '')
           (map (\<lambda>edu. edu_degree edu @ js '' in '' @ edu_field edu) (education p))"
  have tail: "match_Score (if ?degrees \<noteq> [] then ?degrees else js ''Not specified'') = None"
  proof (cases "?degrees \<noteq> []")
    case True
    with degrees_no_match [OF assms] show ?thesis by simp
  next
    case False
    moreover have "match_Score (js ''Not specified'') = None" by code_simp
    ultimately show ?thesis by simp
  qed
  have "match_Score (generated_summary p)
          = match_Score (js '' years of experience. Education: ''
              @ (if ?degrees \<noteq> [] then ?degrees else js ''Not specified''))"
    unfolding generated_summary_def Let_def
    by (rule match_Score_skip) (rule digits_of_no_S)
  also have "\<dots> = match_Score (if ?degrees \<noteq> [] then ?degrees else js ''Not specified'')"
    by (rule match_Score_skip) (simp add: js_def cu_def)
  finally show ?thesis using tail by simp
qed

text \<open>
  C2 (amended): for every record produced by \<open>addResume\<close> and every document that this
  call stored, the stored metadata has a summary; in the record that
  \<open>semanticSearchResumes\<close> builds for a hit on the document, this summary replaces the
  \<open>Score: ...\<close> summary, so that the similarity score leaves no trace in the record; and
  the orchestrator's \<open>rawScore\<close> is 0 whenever the stored summary is a string without
  \<open>Score: \<close> followed by a digit or a dot, in particular when the caller supplies no
  summary and no parsed degree or field of study contains \<open>Score:\<close>.
\<close>

theorem stored_summary_replaces_score_summary:
  assumes "addResume env content extra st = Some (Inr r, st')"
    and "doc \<in> set (drop (length (documents st)) (documents st'))"
  shows "js ''summary'' \<in> dom (metadata doc)
    \<and> get_prop (cmetadata (hit_to_resume senv i (doc, score))) ''summary''
        = get_prop (cmetadata r) ''summary''
    \<and> hit_to_resume senv i (doc, score) = hit_to_resume senv i (doc, score')
    \<and> (\<forall>s. get_prop (cmetadata r) ''summary'' = Str s \<and> match_Score s = None \<longrightarrow>
          (\<exists>c. score_candidate senv pc q (hit_to_resume senv i (doc, score)) = Inr c
               \<and> sc_rawScore c = Num 0))
    \<and> (extra (js ''summary'') = None
        \<and> (\<forall>e \<in> set (education
                  (parsedData_of env (extractResumeContent (trim (remove_controls content))))).
              \<not> occurs_in (js ''Score:'') (edu_degree e)
              \<and> \<not> occurs_in (js ''Score:'') (edu_field e))
        \<longrightarrow> (\<exists>c. score_candidate senv pc q (hit_to_resume senv i (doc, score)) = Inr c
               \<and> sc_rawScore c = Num 0))"
proof -
  let ?p = "parsedData_of env (extractResumeContent (trim (remove_controls content)))"
  from addResume_try_stores [OF addResume_Inr [OF assms(1)]] obtain chunk_list where
    cm: "cmetadata r = combinedCmetadata env ?p extra"
    and docs: "documents st' = documents st
             @ map (\<lambda>chunk. \<lparr> pageContent = chunk,
                               metadata = (cmetadata r)(js ''id'' \<mapsto> resume_id r) \<rparr>) chunk_list"
    by blast
  from assms(2) docs have md: "metadata doc = (cmetadata r)(js ''id'' \<mapsto> resume_id r)"
    by auto
  obtain v where v: "cmetadata r (js ''summary'') = Some v"
    unfolding cm combinedCmetadata_summary by (cases "extra (js ''summary'')") auto
  with md have stored: "metadata doc (js ''summary'') = Some v"
    by (simp add: key_eval)
  have rv: "get_prop (cmetadata r) ''summary'' = v"
    using v by (simp add: get_prop_def)
  have seen: "get_prop (cmetadata (hit_to_resume senv i (doc, score))) ''summary'' = v"
    by (rule hit_to_resume_summary(2) [OF stored])
  have same: "hit_to_resume senv i (doc, score) = hit_to_resume senv i (doc, score')"
    by (rule hit_to_resume_summary(1) [OF stored])
  have zero: "\<exists>c. score_candidate senv pc q (hit_to_resume senv i (doc, score)) = Inr c
               \<and> sc_rawScore c = Num 0"
    if "get_prop (cmetadata r) ''summary'' = Str s" and "match_Score s = None" for s
    using that seen rv score_candidate_no_match by simp
  have gen: "\<exists>c. score_candidate senv pc q (hit_to_resume senv i (doc, score)) = Inr c
               \<and> sc_rawScore c = Num 0"
    if "extra (js ''summary'') = None"
      and "\<forall>e \<in> set (education ?p). \<not> occurs_in (js ''Score:'') (edu_degree e)
                       \<and> \<not> occurs_in (js ''Score:'') (edu_field e)"
  proof -
    from that(1) have "cmetadata r (js ''summary'') = Some (Str (generated_summary ?p))"
      unfolding cm combinedCmetadata_summary by simp
    then have "get_prop (cmetadata r) ''summary'' = Str (generated_summary ?p)"
      by (simp add: get_prop_def)
    with zero generated_summary_no_match [OF that(2)] show ?thesis by blast
  qed
  from stored rv seen same zero gen show ?thesis by (simp add: dom_def)
qed

section \<open>The arithmetic of doubles on concrete inputs\<close>

text \<open>
  \<open>90 * 0.7\<close> is the double just below 63, so that a full stop at index 63 of a text of
  124 units ends the first chunk of \<open>chunkText(text, 90, 0)\<close>.
\<close>

lemma chunk_end_double_threshold:
  "js_times (Num 90) double_0_7 = Num (8866461766385663 / 140737488355328)"
  "chunkText (replicate 63 (cu CHR ''a'') @ js ''.'' @ replicate 60 (cu CHR ''b'')) 90 0
     = Some [replicate 63 (cu CHR ''a'') @ js ''.'', replicate 60 (cu CHR ''b'')]"
  by code_simp+

text \<open>
  \<open>parseFloat("0.575")\<close> is the double nearest to 0.575, and its product with 100 is the
  double just below 57.5: the fallback percentage is 57.
\<close>

lemma parseFloat_nearest_double:
  "parseFloat (js ''0.575'') = Num (2589569785738035 / 4503599627370496)"
  "percentage (generateMatchAnalysis None (parseFloat (js ''0.575''))) = Num 57"
  by code_simp+

text \<open>
  The sum of the doubles \<open>1 - 2^-53\<close> and \<open>2^-54\<close> is rounded to 1, and the mean 0.5 to 1.
\<close>

lemma rounded_mean_double_sum:
  "rounded_mean [Num (9007199254740991 / 9007199254740992), Num (1 / 18014398509481984)] = Num 1"
  by code_simp

section \<open>Instances on the concrete run\<close>

lemma map_eq_by_index:
  assumes "length ys = length xs" and "\<forall>i < length xs. f (ys ! i) = g (xs ! i)"
  shows "map f ys = map g xs"
  using assms by (simp add: list_eq_iff_nth_eq)

lemma demo_searchQuery:
  "searchQuery_of (number_toString demo_env) demo_query
     (parsedCriteria_of demo_env demo_query True)
   = js ''position: React developer | seniority: senior | skills: React (advanced level) [framework] | minimum 5 years experience''"
  by code_simp

lemma demo_searchQuery_nonblank:
  "trim (js ''position: React developer | seniority: senior | skills: React (advanced level) [framework] | minimum 5 years experience'') \<noteq> []"
  by code_simp

lemma demo_retrieval:
  "semanticSearchResumes demo_env
     (searchQuery_of (number_toString demo_env) demo_query
        (parsedCriteria_of demo_env demo_query True)) (Num 5)
   = Inr [hit_to_resume demo_env 0 (demo_hits ! 0), hit_to_resume demo_env 2 (demo_hits ! 2)]"
  unfolding demo_searchQuery using demo_searchQuery_nonblank
  by (simp add: semanticSearchResumes_def demo_env_def demo_hits_def js_greater_def js_less_def
      numeral_2_eq_2 threshold_0_1_def)

lemma numeric_searchQuery:
  "searchQuery_of (number_toString numeric_env) demo_query
     (parsedCriteria_of numeric_env demo_query True)
   = js ''position: React developer | seniority: senior | skills: React (advanced level) [framework] | minimum 5 years experience''"
  by code_simp

lemma numeric_retrieval:
  "semanticSearchResumes numeric_env
     (searchQuery_of (number_toString numeric_env) demo_query
        (parsedCriteria_of numeric_env demo_query True)) (Num 5)
   = Inr [hit_to_resume numeric_env 0 (numeric_hits ! 0), hit_to_resume numeric_env 1 (numeric_hits ! 1)]"
  unfolding numeric_searchQuery using demo_searchQuery_nonblank
  by (simp add: semanticSearchResumes_def numeric_env_def demo_env_def numeric_hits_def js_greater_def js_less_def
      threshold_0_1_def)

lemma demo_summaries_readable:
  "\<forall>resume \<in> set [hit_to_resume demo_env 0 (demo_hits ! 0), hit_to_resume demo_env 2 (demo_hits ! 2)].
     summary_readable (get_prop (cmetadata resume) ''summary'')"
  by code_simp

lemma demo_ids:
  "map resume_id [hit_to_resume demo_env 0 (demo_hits ! 0), hit_to_resume demo_env 2 (demo_hits ! 2)]
   = [Str (js ''r1''), Str (js ''r3'')]"
  by code_simp

lemma numeric_summary_unreadable:
  "\<not> (\<forall>resume \<in> set [hit_to_resume numeric_env 0 (numeric_hits ! 0),
                        hit_to_resume numeric_env 1 (numeric_hits ! 1)].
     summary_readable (get_prop (cmetadata resume) ''summary''))"
  by code_simp

theorem candidates_keep_retrieval_order_witness:
  "semanticSearchResumes demo_env
     (searchQuery_of (number_toString demo_env) demo_query
        (parsedCriteria_of demo_env demo_query True)) (Num 5)
     = Inr [hit_to_resume demo_env 0 (demo_hits ! 0), hit_to_resume demo_env 2 (demo_hits ! 2)]
   \<and> set [1, 0] = {0..<length [hit_to_resume demo_env 0 (demo_hits ! 0),
                                   hit_to_resume demo_env 2 (demo_hits ! 2)]}
   \<and> summary_readable
         (get_prop (cmetadata (hit_to_resume demo_env 0 (demo_hits ! 0))) ''summary'')
   \<and> summary_readable
         (get_prop (cmetadata (hit_to_resume demo_env 2 (demo_hits ! 2))) ''summary'')
   \<and> (\<exists>r. execute demo_env [1, 0] demo_query (Num 5) True = Some (Inr r)
          \<and> map sc_id (candidates r) = [Str (js ''r1''), Str (js ''r3'')])
   \<and> semanticSearchResumes numeric_env
       (searchQuery_of (number_toString numeric_env) demo_query
          (parsedCriteria_of numeric_env demo_query True)) (Num 5)
     = Inr [hit_to_resume numeric_env 0 (numeric_hits ! 0),
            hit_to_resume numeric_env 1 (numeric_hits ! 1)]
   \<and> \<not> summary_readable
         (get_prop (cmetadata (hit_to_resume numeric_env 1 (numeric_hits ! 1))) ''summary'')
   \<and> execute numeric_env [1, 0] demo_query (Num 5) True = Some (Inl TypeError)"
proof -
  let ?resumes = "[hit_to_resume demo_env 0 (demo_hits ! 0), hit_to_resume demo_env 2 (demo_hits ! 2)]"
  let ?numeric = "[hit_to_resume numeric_env 0 (numeric_hits ! 0),
                   hit_to_resume numeric_env 1 (numeric_hits ! 1)]"
  have order: "set [1, 0] = {0..<length ?resumes}" by auto
  have order': "set [1, 0] = {0..<length ?numeric}" by auto
  from candidates_keep_retrieval_order [OF demo_retrieval order] demo_summaries_readable
  obtain r where run: "execute demo_env [1, 0] demo_query (Num 5) True = Some (Inr r)"
    and len: "length (candidates r) = length ?resumes"
    and ids: "\<forall>i < length ?resumes. sc_id (candidates r ! i) = resume_id (?resumes ! i)"
    by (auto simp del: set_simps list.set)
  from len ids have "map sc_id (candidates r) = map resume_id ?resumes"
    by (rule map_eq_by_index)
  then have "map sc_id (candidates r) = [Str (js ''r1''), Str (js ''r3'')]"
    by (simp only: demo_ids)
  with run have ordered: "\<exists>r. execute demo_env [1, 0] demo_query (Num 5) True = Some (Inr r)
      \<and> map sc_id (candidates r) = [Str (js ''r1''), Str (js ''r3'')]"
    by (intro exI [of _ r] conjI)
  have unreadable: "\<not> summary_readable
         (get_prop (cmetadata (hit_to_resume numeric_env 1 (numeric_hits ! 1))) ''summary'')"
    by code_simp
  from candidates_keep_retrieval_order [OF numeric_retrieval order'] numeric_summary_unreadable
  have rejected: "execute numeric_env [1, 0] demo_query (Num 5) True = Some (Inl TypeError)"
    by (simp del: set_simps list.set ball_simps)
  from demo_summaries_readable
  have readable0: "summary_readable
         (get_prop (cmetadata (hit_to_resume demo_env 0 (demo_hits ! 0))) ''summary'')"
    and readable2: "summary_readable
         (get_prop (cmetadata (hit_to_resume demo_env 2 (demo_hits ! 2))) ''summary'')"
    by simp_all
  from demo_retrieval order readable0 readable2 ordered numeric_retrieval unreadable rejected
  show ?thesis by (intro conjI)
qed




theorem empty_criteria_keep_raw_query_witness:
  "criteria_all_empty blank_criteria
   \<and> searchQuery_of (number_toString demo_env) demo_query
       (parsedCriteria_of (demo_env \<lparr> llm_criteria := (\<lambda>q. Some blank_criteria) \<rparr>) demo_query True)
     = demo_query"
proof -
  let ?env = "demo_env \<lparr> llm_criteria := (\<lambda>q. Some blank_criteria) \<rparr>"
  have blank: "criteria_all_empty blank_criteria"
    by (simp add: criteria_all_empty_def absent_or_empty_def blank_criteria_def)
  have parse: "parseSearchQuery ?env demo_query = Some blank_criteria"
    by (simp add: parseSearchQuery_def)
  have "number_toString ?env = number_toString demo_env" by simp
  with empty_criteria_keep_raw_query [of ?env demo_query True] blank parse
  show ?thesis by simp
qed

section \<open>Instances on the text of 300,000 units\<close>

lemma filler_0 [simp]: "filler 0 = []"
  by (simp add: filler_def)

lemma filler_Suc: "filler (Suc n) = cu CHR ''x'' # cu CHR ''y'' # filler n"
  by (simp add: filler_def js_def)

lemma length_filler [simp]: "length (filler n) = 2 * n"
  by (induction n) (simp_all add: filler_Suc)

lemma plain_filler [simp]: "list_all plain (filler n)"
  by (induction n) (simp_all add: filler_Suc plain_def is_ws_def printable_def cu_def)

lemma filler_eq_Nil [simp]: "filler n = [] \<longleftrightarrow> n = 0"
  by (cases n) (simp_all add: filler_Suc)

lemma hd_filler: "0 < n \<Longrightarrow> hd (filler n) = cu CHR ''x''"
  by (cases n) (simp_all add: filler_Suc)

lemma last_filler: "0 < n \<Longrightarrow> last (filler n) = cu CHR ''y''"
proof (induction n)
  case (Suc n)
  then show ?case by (cases n) (simp_all add: filler_Suc)
qed simp

lemma distinct_adj_filler [simp]: "distinct_adj (filler n)"
proof (induction n)
  case (Suc n)
  then show ?case
    by (cases n) (simp_all add: filler_Suc cu_def)
qed simp

lemma collapse_ws_id: "list_all (\<lambda>u. \<not> is_ws u) s \<Longrightarrow> collapse_ws s = s"
  by (induction s) simp_all

lemma collapse_repeats_id: "distinct_adj s \<Longrightarrow> collapse_repeats s = s"
proof (induction s)
  case (Cons c cs)
  then have "takeWhile (\<lambda>u. u = c) cs = []"
    by (cases cs) auto
  with Cons show ?case by (auto simp: distinct_adj_Cons)
qed simp

lemma trim_id: "list_all (\<lambda>u. \<not> is_ws u) s \<Longrightarrow> trim s = s"
proof -
  assume a: "list_all (\<lambda>u. \<not> is_ws u) s"
  then have "dropWhile is_ws s = s"
    by (cases s) simp_all
  moreover from a have "dropWhile is_ws (rev s) = rev s"
    by (cases "rev s") (auto simp: list_all_iff dest: arg_cong [where f = set])
  ultimately show ?thesis by (simp add: trim_def)
qed

lemma cleanup_id:
  assumes "list_all plain s" and "distinct_adj s"
  shows "cleanup s = s"
proof -
  from assms(1) have nows: "list_all (\<lambda>u. \<not> is_ws u) s" and pr: "list_all printable s"
    by (simp_all add: list_all_iff plain_def)
  from pr have "filter printable s = s" by (simp add: list_all_iff)
  with nows assms(2) show ?thesis
    by (simp add: cleanup_def collapse_ws_id collapse_repeats_id trim_id)
qed

lemma extractSection_plain:
  assumes "list_all (\<lambda>u. \<not> is_ws u) c" and "0 \<le> st" and "0 \<le> n"
  shows "extractSection c st n = take (nat n) (drop (nat st) c)"
proof -
  have "substring c st (min (st + n) (int (length c))) = take (nat n) (drop (nat st) c)"
    using assms(2,3) by (auto simp: substring_def Let_def min_def max_def)
  moreover have "list_all (\<lambda>u. \<not> is_ws u) (take (nat n) (drop (nat st) c))"
    using assms(1) by (auto simp: list_all_iff dest: in_set_takeD in_set_dropD)
  ultimately show ?thesis by (simp add: extractSection_def trim_id)
qed

lemma search_from_filler:
  assumes "\<And>s. \<not> matches_at r (cu CHR ''x'' # s)" and "\<And>s. \<not> matches_at r (cu CHR ''y'' # s)"
  shows "search_from r (filler n @ t) i = search_from r t (i + 2 * int n)"
proof (induction n arbitrary: i)
  case (Suc n)
  show ?case using assms Suc [of "i + 1 + 1"] by (simp add: filler_Suc algebra_simps)
qed simp

lemma length_big_head: "length big_head = 8034"
  by (simp add: big_head_def js_def)

lemma length_big_resume: "length big_resume = 300000"
  by (simp add: big_resume_def length_big_head js_def)

lemma plain_js_experience: "list_all plain (js ''experience-'')"
  and plain_js_competencies: "list_all plain (js ''competencies-'')"
  and plain_js_education: "list_all plain (js ''education-'')"
  by (simp_all add: js_def cu_def plain_def is_ws_def printable_def)

lemma plain_big_head: "list_all plain big_head"
  by (simp add: big_head_def plain_js_experience plain_js_competencies plain_js_education)

lemma nows_big_resume: "list_all (\<lambda>u. \<not> is_ws u) big_resume"
proof -
  have "list_all (\<lambda>u. \<not> is_ws u) big_head"
    using plain_big_head by (simp add: list_all_iff plain_def)
  moreover have "list_all (\<lambda>u. \<not> is_ws u) (filler n)" for n
    using plain_filler [of n] by (simp add: list_all_iff plain_def)
  ultimately show ?thesis
    by (simp add: big_resume_def js_def cu_def is_ws_def)
qed

lemma printable_big_resume: "list_all printable big_resume"
proof -
  have "list_all printable big_head"
    using plain_big_head by (simp add: list_all_iff plain_def)
  moreover have "list_all printable (filler n)" for n
    using plain_filler [of n] by (simp add: list_all_iff plain_def)
  ultimately show ?thesis
    by (simp add: big_resume_def js_def cu_def printable_def)
qed

lemma hd_filler_append: "0 < n \<Longrightarrow> hd (filler n @ t) = cu CHR ''x''"
  by (simp add: hd_append hd_filler)

lemma distinct_adj_filler_append:
  "0 < n \<Longrightarrow> distinct_adj (filler n @ t) = (distinct_adj t \<and> (t = [] \<or> hd t \<noteq> cu CHR ''y''))"
  by (auto simp: distinct_adj_append_iff last_filler)

lemma distinct_adj_big_resume: "distinct_adj big_resume"
  by (simp add: big_resume_def big_head_def distinct_adj_filler_append hd_filler_append
      distinct_adj_Cons js_def) (simp add: cu_def hd_filler)

lemma cleanup_big_resume: "cleanup big_resume = big_resume"
proof -
  have "filter printable big_resume = big_resume"
    using printable_big_resume by (simp add: list_all_iff)
  then show ?thesis
    using nows_big_resume distinct_adj_big_resume
    by (simp add: cleanup_def collapse_ws_id collapse_repeats_id trim_id)
qed

lemmas regex_eval = matches_at_def js_def cu_def lower_def is_ws_def is_digit_def

lemma experience_at_experience:
  "search_from experiencePattern1 (js ''experience-'' @ t) i = i"
  by (simp add: experiencePattern1_def regex_eval)

lemma education_in_experience:
  "search_from educationPattern1 (js ''experience-'' @ t) i
     = search_from educationPattern1 t (11 + i)"
  by (simp add: educationPattern1_def regex_eval)

lemma education_in_competencies:
  "search_from educationPattern1 (js ''competencies-'' @ t) i
     = search_from educationPattern1 t (13 + i)"
  by (simp add: educationPattern1_def regex_eval)

lemma education_at_education:
  "search_from educationPattern1 (js ''education-'' @ t) i = i"
  by (simp add: educationPattern1_def regex_eval)

lemma education_in_filler:
  "search_from educationPattern1 (filler n @ t) i
     = search_from educationPattern1 t (i + 2 * int n)"
  by (rule search_from_filler) (simp_all add: educationPattern1_def regex_eval)

lemma skills_in_experience:
  "search_from skillsPattern1 (js ''experience-'' @ t) i
     = search_from skillsPattern1 t (11 + i)"
  by (simp add: skillsPattern1_def regex_eval)

lemma skills_at_competencies:
  "search_from skillsPattern1 (js ''competencies-'' @ t) i = i"
  by (simp add: skillsPattern1_def regex_eval)

lemma skills_in_filler:
  "search_from skillsPattern1 (filler n @ t) i
     = search_from skillsPattern1 t (i + 2 * int n)"
  by (rule search_from_filler) (simp_all add: skillsPattern1_def regex_eval)

lemma search_experience_big: "search big_resume experiencePattern1 = 0"
  by (simp add: search_def big_resume_def big_head_def experience_at_experience)

lemma search_education_big: "search big_resume educationPattern1 = 6024"
  by (simp add: search_def big_resume_def big_head_def education_in_experience
      education_in_filler education_in_competencies education_at_education)

lemma search_skills_big: "search big_resume skillsPattern1 = 3011"
  by (simp add: search_def big_resume_def big_head_def skills_in_experience
      skills_in_filler skills_at_competencies)

lemma experience_big: "extractExperienceSection big_resume = take 4000 big_resume"
  using extractSection_plain [OF nows_big_resume, of 0 4000]
  by (simp add: extractExperienceSection_def experiencePatterns_def search_experience_big)

lemma education_big: "extractEducationSection big_resume = take 3000 (drop 6024 big_resume)"
  using extractSection_plain [OF nows_big_resume, of 6024 3000]
  by (simp add: extractEducationSection_def educationPatterns_def search_education_big)

lemma skills_big: "extractSkillsSection big_resume = take 3000 (drop 3011 big_resume)"
  using extractSection_plain [OF nows_big_resume, of 3011 3000]
  by (simp add: extractSkillsSection_def skillsPatterns_def search_skills_big)

lemma personal_big: "extractSection big_resume 0 1000 = take 1000 big_resume"
  using extractSection_plain [OF nows_big_resume, of 0 1000] by simp

lemma take_drop_big_head:
  assumes "k + n \<le> 8034"
  shows "take n (drop k big_resume) = take n (drop k big_head)"
  using assms by (simp add: big_resume_def length_big_head)

lemma no_Z_in_head_part:
  assumes "k + n \<le> 8034"
  shows "cu CHR ''Z'' \<notin> set (take n (drop k big_resume))"
proof -
  have "set (take n (drop k big_head)) \<subseteq> set big_head"
    by (meson in_set_dropD in_set_takeD subsetI)
  moreover have "cu CHR ''Z'' \<notin> set big_head"
    using plain_big_head by (auto simp: list_all_iff plain_def)
  ultimately show ?thesis using take_drop_big_head [OF assms] by auto
qed

lemma set_join: "set (join sep xs) \<subseteq> set sep \<union> \<Union> (set ` set xs)"
  by (induction sep xs rule: join.induct) auto

lemma big_resume_nonempty: "big_resume \<noteq> []"
  using length_big_resume by auto

lemma sections_of_big:
  "sections_of big_resume =
     [ js ''=== PERSONAL INFORMATION ==='', take 1000 big_resume,
       js ''=== WORK EXPERIENCE ==='', take 4000 big_resume,
       js ''=== EDUCATION ==='', take 1500 (drop 6024 big_resume),
       js ''=== SKILLS ==='', take 1500 (drop 3011 big_resume) ]"
  by (simp add: sections_of_def personal_big experience_big education_big skills_big
      substring_0 length_big_resume big_resume_nonempty Let_def)

lemma big_over_ceiling: "maxChars < length big_resume"
  and big_cleaned_over_ceiling: "maxChars < length (cleanup big_resume)"
  by (simp_all add: cleanup_big_resume length_big_resume maxChars_def)

lemma output_big:
  "extractResumeContent big_resume = join nl2 (sections_of big_resume)"
  using big_over_ceiling big_cleaned_over_ceiling
  by (simp add: extractResumeContent_def Let_def sectionAwareExtraction_join cleanup_big_resume)

text \<open>
  C6 (as stated, refuted): the education section located in this text has 3,000 units,
  and the marker at its offset 2010 does not occur in the output at all, so the output
  does not hold 3,000 units of the section.
\<close>

theorem education_section_cut_at_1500:
  "maxChars < length (cleanup big_resume)
   \<and> length (extractEducationSection (cleanup big_resume)) = 3000
   \<and> cu CHR ''Z'' \<in> set (extractEducationSection (cleanup big_resume))
   \<and> cu CHR ''Z'' \<notin> set (extractResumeContent big_resume)"
proof -
  have len: "length (extractEducationSection (cleanup big_resume)) = 3000"
    by (simp add: cleanup_big_resume education_big length_big_resume)
  have "take 3000 (drop 6024 big_resume)
          = drop 6024 big_head @ cu CHR ''Z'' # take 989 (filler 145982 @ js ''.'')"
    by (simp add: big_resume_def length_big_head js_def)
  then have inside: "cu CHR ''Z'' \<in> set (extractEducationSection (cleanup big_resume))"
    by (simp add: cleanup_big_resume education_big)
  have "cu CHR ''Z'' \<notin> set (join nl2 (sections_of big_resume))"
  proof
    assume "cu CHR ''Z'' \<in> set (join nl2 (sections_of big_resume))"
    with set_join [of nl2 "sections_of big_resume"]
    have "cu CHR ''Z'' \<in> set nl2 \<union> \<Union> (set ` set (sections_of big_resume))" by blast
    moreover have "cu CHR ''Z'' \<notin> set nl2" by (simp add: nl2_def cu_def)
    moreover have "cu CHR ''Z'' \<notin> set (js ''=== PERSONAL INFORMATION ==='')"
      "cu CHR ''Z'' \<notin> set (js ''=== WORK EXPERIENCE ==='')"
      "cu CHR ''Z'' \<notin> set (js ''=== EDUCATION ==='')"
      "cu CHR ''Z'' \<notin> set (js ''=== SKILLS ==='')"
      by (simp_all add: js_def cu_def)
    moreover have "cu CHR ''Z'' \<notin> set (take 1000 big_resume)"
      using no_Z_in_head_part [of 0 1000] by simp
    moreover have "cu CHR ''Z'' \<notin> set (take 4000 big_resume)"
      using no_Z_in_head_part [of 0 4000] by simp
    moreover have "cu CHR ''Z'' \<notin> set (take 1500 (drop 6024 big_resume))"
      using no_Z_in_head_part [of 6024 1500] by simp
    moreover have "cu CHR ''Z'' \<notin> set (take 1500 (drop 3011 big_resume))"
      using no_Z_in_head_part [of 3011 1500] by simp
    ultimately show False unfolding sections_of_big by simp
  qed
  with len inside big_cleaned_over_ceiling show ?thesis by (simp add: output_big)
qed

theorem sections_included_up_to_1500_witness:
  "maxChars < length big_resume \<and> maxChars < length (cleanup big_resume)
   \<and> extractResumeContent big_resume = join nl2 (sections_of (cleanup big_resume))
   \<and> length (extractEducationSection (cleanup big_resume)) \<le> 3000
   \<and> take 1500 (extractEducationSection (cleanup big_resume))
       = take 1500 (drop 6024 big_resume)"
  using sections_included_up_to_1500 [OF big_over_ceiling big_cleaned_over_ceiling]
    big_over_ceiling big_cleaned_over_ceiling
  by (simp add: cleanup_big_resume education_big)

theorem extractResumeContent_within_ceiling_witness:
  "length big_resume = 300000
   \<and> 160000 < length (cleanup big_resume)
   \<and> extractResumeContent big_resume = sectionAwareExtraction (cleanup big_resume)
   \<and> length (extractResumeContent big_resume) \<le> 160000"
proof -
  have "160000 < length big_resume" and "160000 < length (cleanup big_resume)"
    by (simp_all add: length_big_resume cleanup_big_resume)
  with extractResumeContent_within_ceiling [of big_resume] length_big_resume
  show ?thesis by auto
qed

section \<open>Instances on the concrete ingestion\<close>

theorem blank_content_rejected_before_store_witness:
  "trim (remove_controls [0x20, 0x0, 0xFFFD, 0x9]) = []
   \<and> addResume demo_ingest [0x20, 0x0, 0xFFFD, 0x9] demo_extra empty_store
       = Some (Inl Failed_to_add_resume, empty_store)"
proof -
  have blank: "trim (remove_controls [0x20, 0x0, 0xFFFD, 0x9]) = []"
    by (simp add: trim_def remove_controls_def control_unit_def is_ws_def)
  with blank_content_rejected_before_store [of "[0x20, 0x0, 0xFFFD, 0x9]" demo_ingest demo_extra empty_store]
  show ?thesis by simp
qed

lemma demo_content_kept: "trim (remove_controls demo_content) = demo_content"
  "trim demo_content = demo_content"
  by (simp_all add: demo_content_def trim_def remove_controls_def control_unit_def is_ws_def
      js_def cu_def)

lemma demo_ingestion:
  "addResume demo_ingest demo_content extra empty_store
     = Some (Inr \<lparr> resume_id = Str (js ''id-1''), document = js ''{}'',
                   cmetadata = combinedCmetadata demo_ingest demo_parsed extra \<rparr>,
             \<lparr> documents =
                 [\<lparr> pageContent = js ''{}'',
                    metadata = (combinedCmetadata demo_ingest demo_parsed extra)
                                 (js ''id'' \<mapsto> Str (js ''id-1'')) \<rparr>],
               addDocuments_calls = 1 \<rparr>)"
proof -
  have ne: "demo_content \<noteq> []" by (simp add: demo_content_def js_def)
  have chunk: "chunkText (js ''{}'') 20000 150 = Some [js ''{}'']"
    by (simp add: chunkText_def js_def)
  have parsed: "parsedData_of demo_ingest t = demo_parsed" for t
    by (simp add: parsedData_of_def demo_ingest_def)
  have js: "JSON_stringify demo_ingest p = js ''{}''" "generateId demo_ingest = js ''id-1''"
    "store_accepts demo_ingest ds" for p ds
    by (simp_all add: demo_ingest_def)
  show ?thesis
    by (simp add: addResume_def addResume_try_def demo_content_kept ne Let_def parsed js chunk
        addVectors_def empty_store_def)
qed

theorem stored_summary_replaces_score_summary_witness:
  "addResume demo_ingest demo_content demo_extra empty_store
     = Some (Inr demo_record, \<lparr> documents = [demo_stored], addDocuments_calls = 1 \<rparr>)
   \<and> demo_stored \<in> set (drop (length (documents empty_store)) [demo_stored])
   \<and> hit_to_resume demo_env 0 (demo_stored, Num (7 / 8))
       = hit_to_resume demo_env 0 (demo_stored, Num (1 / 8))
   \<and> (\<exists>c. score_candidate demo_env None demo_query
             (hit_to_resume demo_env 0 (demo_stored, Num (7 / 8))) = Inr c
          \<and> sc_rawScore c = Num 0)"
proof -
  have run: "addResume demo_ingest demo_content demo_extra empty_store
     = Some (Inr demo_record, \<lparr> documents = [demo_stored], addDocuments_calls = 1 \<rparr>)"
    by (simp add: demo_ingestion demo_record_def demo_stored_def)
  have doc: "demo_stored \<in> set (drop (length (documents empty_store))
                 (documents \<lparr> documents = [demo_stored], addDocuments_calls = 1 \<rparr>))"
    by (simp add: empty_store_def)
  have extra: "demo_extra (js ''summary'') = None"
    by (simp add: demo_extra_def js_def cu_def)
  have "\<not> occurs_in (js ''Score:'') (js ''Bachelor of Science'')"
    and "\<not> occurs_in (js ''Score:'') (js ''Computer Science'')"
    by code_simp+
  then have edu: "\<forall>e \<in> set (education (parsedData_of demo_ingest
               (extractResumeContent (trim (remove_controls demo_content))))).
             \<not> occurs_in (js ''Score:'') (edu_degree e)
             \<and> \<not> occurs_in (js ''Score:'') (edu_field e)"
    by (simp add: parsedData_of_def demo_ingest_def demo_parsed_def)
  note main = stored_summary_replaces_score_summary [OF run doc, of demo_env 0 "Num (7 / 8)"
      "Num (1 / 8)" None demo_query]
  from main have same: "hit_to_resume demo_env 0 (demo_stored, Num (7 / 8))
       = hit_to_resume demo_env 0 (demo_stored, Num (1 / 8))"
    by blast
  from main extra edu have zero: "\<exists>c. score_candidate demo_env None demo_query
             (hit_to_resume demo_env 0 (demo_stored, Num (7 / 8))) = Inr c
          \<and> sc_rawScore c = Num 0"
    by blast
  have doc': "demo_stored \<in> set (drop (length (documents empty_store)) [demo_stored])"
    by (simp add: empty_store_def)
  from run doc' same zero show ?thesis by (intro conjI)
qed

text \<open>
  C2 (as stated, refuted): a summary supplied by the caller of \<open>addResume\<close> is stored
  in place of the generated one; when it reads \<open>Score: 0.9 - ...\<close>, the regular
  expression matches and \<open>rawScore\<close> is the double nearest to 0.9, not 0.
\<close>

theorem caller_summary_produces_rawScore:
  "addResume demo_ingest demo_content scored_extra empty_store
     = Some (Inr \<lparr> resume_id = Str (js ''id-1''), document = js ''{}'',
                   cmetadata = combinedCmetadata demo_ingest demo_parsed scored_extra \<rparr>,
             \<lparr> documents =
                 [\<lparr> pageContent = js ''{}'',
                    metadata = (combinedCmetadata demo_ingest demo_parsed scored_extra)
                                 (js ''id'' \<mapsto> Str (js ''id-1'')) \<rparr>],
               addDocuments_calls = 1 \<rparr>)
   \<and> \<not> isl (score_candidate demo_env None demo_query
          (hit_to_resume demo_env 0
             (\<lparr> pageContent = js ''{}'',
                metadata = (combinedCmetadata demo_ingest demo_parsed scored_extra)
                             (js ''id'' \<mapsto> Str (js ''id-1'')) \<rparr>, Num (1 / 2))))
   \<and> sc_rawScore (projr (score_candidate demo_env None demo_query
          (hit_to_resume demo_env 0
             (\<lparr> pageContent = js ''{}'',
                metadata = (combinedCmetadata demo_ingest demo_parsed scored_extra)
                             (js ''id'' \<mapsto> Str (js ''id-1'')) \<rparr>, Num (1 / 2)))))
       = Num (8106479329266893 / 9007199254740992)"
proof -
  have "\<not> isl (score_candidate demo_env None demo_query
          (hit_to_resume demo_env 0
             (\<lparr> pageContent = js ''{}'',
                metadata = (combinedCmetadata demo_ingest demo_parsed scored_extra)
                             (js ''id'' \<mapsto> Str (js ''id-1'')) \<rparr>, Num (1 / 2))))"
    by code_simp
  moreover have "sc_rawScore (projr (score_candidate demo_env None demo_query
          (hit_to_resume demo_env 0
             (\<lparr> pageContent = js ''{}'',
                metadata = (combinedCmetadata demo_ingest demo_parsed scored_extra)
                             (js ''id'' \<mapsto> Str (js ''id-1'')) \<rparr>, Num (1 / 2)))))
       = Num (8106479329266893 / 9007199254740992)"
    by code_simp
  ultimately show ?thesis by (simp add: demo_ingestion)
qed

end
